theory Spec2Isabelle
  imports Complex_Main "HOL-Library.Sublist" "HOL-Library.AList"
begin

section \<open>PCCArena: the experiment orchestration core\<close>

text \<open>
  A shallow embedding of \<^verbatim>\<open>algs_wrapper/base.py\<close>, \<^verbatim>\<open>algs_wrapper/GPCC.py\<close>,
  \<^verbatim>\<open>algs_wrapper/PCGCv1.py\<close> and \<^verbatim>\<open>utils/processing.py\<close>.

  Conventions of the model.
  \<^item> A Python \<^verbatim>\<open>str\<close> is a \<^typ>\<open>string\<close> holding its UTF-8 encoding, a Python
    \<^verbatim>\<open>bytes\<close> is a \<^typ>\<open>string\<close> holding its bytes. The characters the code looks
    at (\<^verbatim>\<open>r\<close>, the digits, \<^verbatim>\<open>/\<close>, \<^verbatim>\<open>.\<close>, \<^verbatim>\<open>*\<close>, the newline) are ASCII, and an
    ASCII byte never occurs inside a multi-byte UTF-8 sequence.
  \<^item> A raised exception is a value of type \<open>exn\<close>; a function that may raise returns
    \<open>exn + 'a\<close> (\<open>Inl\<close> the exception) or \<open>exn option\<close> when it returns nothing.
  \<^item> Everything outside the process (file system, console, clock) is the record
    \<open>env\<close>, passed in and returned.
\<close>

subsection \<open>Exceptions, console and environment\<close>

datatype exn =
    AttributeError string
  | AssertionError
  | ValueError string
  | KeyError string
  | TypeError string
  | IndexError
  | FileNotFoundError string
  | FileExistsError string
  | NotADirectoryError string
  | IsADirectoryError string
  | UnicodeDecodeError
  | OtherError string

datatype out_line =
    LogInfo string
  | LogWarning string
  | LogError string
  | Print string

datatype node = Dir | File string

text \<open>A pathlib path (POSIX flavour): the root (\<^verbatim>\<open>''\<close>, \<^verbatim>\<open>/\<close> or \<^verbatim>\<open>//\<close>) and the parts.\<close>

datatype path = Path string "string list"

record env =
  fs :: "(path \<times> node) list"
  console :: "out_line list"
  clock :: real

definition emit :: "out_line \<Rightarrow> env \<Rightarrow> env" where
  "emit x e = e\<lparr>console := console e @ [x]\<rparr>"

subsection \<open>The codec plugin: \<^verbatim>\<open>Base.__init__\<close> and the rate property\<close>

text \<open>
  A value of the configuration file: a scalar (held as its \<^verbatim>\<open>str()\<close> rendering) or a
  section of scalars. \<^verbatim>\<open>load_cfg\<close> (utils.file_io) is not part of the sources; its
  result is a parameter.
\<close>

datatype cfgval = Scalar string | Section "(string \<times> string) list"

text \<open>
  The instance: the name of its class and its attributes. \<open>None\<close> is an attribute
  that was never assigned: \<^verbatim>\<open>__init__\<close> assigns \<^verbatim>\<open>_algs_cfg\<close> and \<^verbatim>\<open>_use_gpu\<close>
  only.
\<close>

record plugin =
  cls_name :: string
  algs_cfg :: "(string \<times> cfgval) list"
  use_gpu_attr :: bool
  rate_attr :: "string option"
  color_attr :: "int option"
  resolution_attr :: "int option option"
  pc_scale_attr :: "int option"

definition Base_init :: "string \<Rightarrow> (string \<times> cfgval) list \<Rightarrow> bool \<Rightarrow> plugin" where
  "Base_init cls cfg use_gpu =
     \<lparr>cls_name = cls, algs_cfg = cfg, use_gpu_attr = use_gpu, rate_attr = None, color_attr = None,
      resolution_attr = None, pc_scale_attr = None\<rparr>"

text \<open>The getter: \<^verbatim>\<open>return self._rate\<close>.\<close>

definition rate :: "plugin \<Rightarrow> exn + string" where
  "rate self = (case rate_attr self of
                  None \<Rightarrow> Inl (AttributeError ''_rate'')
                | Some r \<Rightarrow> Inr r)"

text \<open>
  \<^verbatim>\<open>re.search('^r[1-9]+', rate, re.MULTILINE)\<close>. With \<^verbatim>\<open>re.MULTILINE\<close> the anchor
  \<^verbatim>\<open>^\<close> matches at the start of the string and right after every newline; the search
  returns the leftmost match, and \<^verbatim>\<open>+\<close> is greedy.
\<close>

definition digit19 :: "char \<Rightarrow> bool" where
  "digit19 c = (c \<in> set ''123456789'')"

definition newline :: char where
  "newline = CHR 0x0A"

text \<open>\<open>match_here s\<close>: the match of \<^verbatim>\<open>r[1-9]+\<close> that starts at the head of \<open>s\<close>.\<close>

fun match_here :: "string \<Rightarrow> string option" where
  "match_here [] = None"
| "match_here (c # cs) =
     (if c = CHR ''r'' \<and> takeWhile digit19 cs \<noteq> []
      then Some (c # takeWhile digit19 cs) else None)"

text \<open>\<open>search_from bol s\<close>: \<open>bol\<close> says whether the head of \<open>s\<close> is at a line start.\<close>

fun search_from :: "bool \<Rightarrow> string \<Rightarrow> string option" where
  "search_from bol [] = None"
| "search_from bol (c # cs) =
     (case (if bol then match_here (c # cs) else None) of
        Some m \<Rightarrow> Some m
      | None \<Rightarrow> search_from (c = newline) cs)"

definition re_search_rate :: "string \<Rightarrow> string option" where
  "re_search_rate s = search_from True s"

text \<open>
  The setter. A failed search logs the warning and falls through to
  \<^verbatim>\<open>self._rate = m.group()\<close>, where \<^verbatim>\<open>m\<close> is \<^verbatim>\<open>None\<close>: the attribute access raises
  and \<^verbatim>\<open>_rate\<close> is not assigned.
\<close>

definition invalid_rate_msg :: string where
  "invalid_rate_msg = ''Invalid rate control parameters. Use 'r1', 'r2', etc.''"

definition rate_setter :: "plugin \<Rightarrow> string \<Rightarrow> env \<Rightarrow> exn option \<times> plugin \<times> env" where
  "rate_setter self r e =
     (case re_search_rate r of
        None \<Rightarrow> (Some (AttributeError ''group''), self, emit (LogWarning invalid_rate_msg) e)
      | Some m \<Rightarrow> (None, self\<lparr>rate_attr := Some m\<rparr>, e))"

subsection \<open>pathlib: pure POSIX paths\<close>

text \<open>
  \<^verbatim>\<open>Union[str, Path]\<close>: an argument is a string or a path already parsed.
\<close>

datatype pathlike = Str string | Pth path

definition sep :: char where
  "sep = CHR ''/''"

text \<open>\<^verbatim>\<open>str.split('/')\<close>: the pieces between separators, empty pieces included.\<close>

fun split_sep :: "string \<Rightarrow> string list" where
  "split_sep [] = [[]]"
| "split_sep (c # cs) =
     (if c = sep then [] # split_sep cs
      else (case split_sep cs of [] \<Rightarrow> [[c]] | w # ws \<Rightarrow> (c # w) # ws))"

text \<open>
  \<^verbatim>\<open>splitroot\<close> of the POSIX flavour: exactly two leading slashes are the root
  \<^verbatim>\<open>//\<close>, any other number of them the root \<^verbatim>\<open>/\<close>.
\<close>

definition splitroot :: "string \<Rightarrow> string \<times> string" where
  "splitroot part =
     (if part \<noteq> [] \<and> hd part = sep
      then (let stripped = dropWhile (\<lambda>c. c = sep) part
            in (if length part - length stripped = 2 then [sep, sep] else [sep], stripped))
      else ([], part))"

definition components :: "string \<Rightarrow> string list" where
  "components rel = filter (\<lambda>x. x \<noteq> [] \<and> x \<noteq> ''.'') (split_sep rel)"

text \<open>
  \<^verbatim>\<open>parse_parts\<close> scans the segments from the last one back and stops at the first
  rooted one; read forwards, a rooted segment discards what came before it.
\<close>

fun parse_from :: "path \<Rightarrow> string list \<Rightarrow> path" where
  "parse_from p [] = p"
| "parse_from (Path r ps) (seg # segs) =
     (if seg = [] then parse_from (Path r ps) segs
      else (case splitroot seg of
              (rt, rel) \<Rightarrow>
                if rt \<noteq> [] then parse_from (Path rt (components rel)) segs
                else parse_from (Path r (ps @ components rel)) segs))"

definition parse_parts :: "string list \<Rightarrow> path" where
  "parse_parts segs = parse_from (Path [] []) segs"

text \<open>The segments an argument contributes: a string itself, a path its parts.\<close>

fun segments :: "pathlike \<Rightarrow> string list" where
  "segments (Str s) = [s]"
| "segments (Pth (Path r ps)) = r # ps"

definition Path_of :: "pathlike \<Rightarrow> path" where
  "Path_of a = parse_parts (segments a)"

definition joinpath :: "path \<Rightarrow> pathlike list \<Rightarrow> path" where
  "joinpath p args = parse_parts (segments (Pth p) @ concat (map segments args))"

fun intercalate :: "string \<Rightarrow> string list \<Rightarrow> string" where
  "intercalate s [] = []"
| "intercalate s [x] = x"
| "intercalate s (x # y # ys) = x @ s @ intercalate s (y # ys)"

fun str_path :: "path \<Rightarrow> string" where
  "str_path (Path r ps) = (if r = [] \<and> ps = [] then ''.'' else r @ intercalate [sep] ps)"

fun parent :: "path \<Rightarrow> path" where
  "parent (Path r ps) = Path r (butlast ps)"

fun name :: "path \<Rightarrow> string" where
  "name (Path r ps) = (if ps = [] then [] else last ps)"

text \<open>\<^verbatim>\<open>name.rfind('.')\<close>: the index of the last dot.\<close>

definition rfind_dot :: "string \<Rightarrow> nat option" where
  "rfind_dot s =
     (if CHR ''.'' \<in> set s
      then Some (length s - 1 - length (takeWhile (\<lambda>c. c \<noteq> CHR ''.'') (rev s)))
      else None)"

definition suffix_of_name :: "string \<Rightarrow> string" where
  "suffix_of_name n =
     (case rfind_dot n of
        None \<Rightarrow> []
      | Some i \<Rightarrow> if 0 < i \<and> i + 1 < length n then drop i n else [])"

definition stem_of_name :: "string \<Rightarrow> string" where
  "stem_of_name n =
     (case rfind_dot n of
        None \<Rightarrow> n
      | Some i \<Rightarrow> if 0 < i \<and> i + 1 < length n then take i n else n)"

definition suffix :: "path \<Rightarrow> string" where
  "suffix p = suffix_of_name (name p)"

definition stem :: "path \<Rightarrow> string" where
  "stem p = stem_of_name (name p)"

text \<open>
  \<^verbatim>\<open>with_suffix\<close>: the suffix must be empty or a dot followed by something, without a
  separator; the path must have a name.
\<close>

fun with_suffix :: "path \<Rightarrow> string \<Rightarrow> exn + path" where
  "with_suffix (Path r ps) suf =
     (if sep \<in> set suf then Inl (ValueError ''Invalid suffix'')
      else if (suf \<noteq> [] \<and> hd suf \<noteq> CHR ''.'') \<or> suf = ''.''
        then Inl (ValueError ''Invalid suffix'')
      else if name (Path r ps) = [] then Inl (ValueError ''empty name'')
      else (let n = name (Path r ps); old = suffix_of_name n;
                n' = (if old = [] then n @ suf else take (length n - length old) n @ suf)
            in Inr (Path r (butlast ps @ [n']))))"

subsection \<open>The file system\<close>

text \<open>
  The file system lists its entries; the root of a path (\<^verbatim>\<open>/\<close>, or the working
  directory of a relative path) is a directory that always exists.
\<close>

type_synonym filesystem = "(path \<times> node) list"

fun lookup_node :: "filesystem \<Rightarrow> path \<Rightarrow> node option" where
  "lookup_node f (Path r ps) = (if ps = [] then Some Dir else map_of f (Path r ps))"

definition is_dir :: "filesystem \<Rightarrow> path \<Rightarrow> bool" where
  "is_dir f p = (lookup_node f p = Some Dir)"

text \<open>\<^verbatim>\<open>os.mkdir\<close>: one level, the parent must be a directory, the path must be new.\<close>

definition os_mkdir :: "path \<Rightarrow> filesystem \<Rightarrow> exn + filesystem" where
  "os_mkdir p f =
     (case lookup_node f (parent p) of
        None \<Rightarrow> Inl (FileNotFoundError (str_path p))
      | Some (File c) \<Rightarrow> Inl (NotADirectoryError (str_path p))
      | Some Dir \<Rightarrow>
          (case lookup_node f p of
             None \<Rightarrow> Inr (f @ [(p, Dir)])
           | Some n \<Rightarrow> Inl (FileExistsError (str_path p))))"

text \<open>
  \<^verbatim>\<open>Path.mkdir(parents=False, exist_ok=True)\<close>: the second call of the recursion
  below. \<^verbatim>\<open>FileNotFoundError\<close> is re-raised; any other \<^verbatim>\<open>OSError\<close> is swallowed when
  the path is a directory.
\<close>

definition mkdir_exist_ok :: "path \<Rightarrow> filesystem \<Rightarrow> exn option \<times> filesystem" where
  "mkdir_exist_ok p f =
     (case os_mkdir p f of
        Inr f' \<Rightarrow> (None, f')
      | Inl (FileNotFoundError x) \<Rightarrow> (Some (FileNotFoundError x), f)
      | Inl e \<Rightarrow> if is_dir f p then (None, f) else (Some e, f))"

text \<open>
  \<^verbatim>\<open>Path.mkdir(parents=True, exist_ok=True)\<close>, by recursion on the parts read from
  the last one: on \<^verbatim>\<open>FileNotFoundError\<close> the parent is made first (unless the path is
  its own parent), then the path itself.
\<close>

fun mkdir_parents_rev ::
  "string \<Rightarrow> string list \<Rightarrow> filesystem \<Rightarrow> exn option \<times> filesystem" where
  "mkdir_parents_rev r [] f =
     (case os_mkdir (Path r []) f of
        Inr f' \<Rightarrow> (None, f')
      | Inl (FileNotFoundError x) \<Rightarrow> (Some (FileNotFoundError x), f)
      | Inl e \<Rightarrow> if is_dir f (Path r []) then (None, f) else (Some e, f))"
| "mkdir_parents_rev r (x # rest) f =
     (case os_mkdir (Path r (rev (x # rest))) f of
        Inr f' \<Rightarrow> (None, f')
      | Inl (FileNotFoundError x') \<Rightarrow>
          (case mkdir_parents_rev r rest f of
             (Some e, f') \<Rightarrow> (Some e, f')
           | (None, f') \<Rightarrow> mkdir_exist_ok (Path r (rev (x # rest))) f')
      | Inl e \<Rightarrow> if is_dir f (Path r (rev (x # rest))) then (None, f) else (Some e, f))"

fun mkdir_parents :: "path \<Rightarrow> filesystem \<Rightarrow> exn option \<times> filesystem" where
  "mkdir_parents (Path r ps) f = mkdir_parents_rev r (rev ps) f"

text \<open>\<^verbatim>\<open>open(p, 'w')\<close> followed by \<^verbatim>\<open>write\<close>: creates or replaces the file.\<close>

definition write_file :: "path \<Rightarrow> string \<Rightarrow> filesystem \<Rightarrow> exn + filesystem" where
  "write_file p content f =
     (case lookup_node f (parent p) of
        None \<Rightarrow> Inl (FileNotFoundError (str_path p))
      | Some (File c) \<Rightarrow> Inl (NotADirectoryError (str_path p))
      | Some Dir \<Rightarrow>
          (case lookup_node f p of
             Some Dir \<Rightarrow> Inl (IsADirectoryError (str_path p))
           | _ \<Rightarrow> Inr (AList.update p (File content) f)))"

text \<open>
  Modelled from the spec: \<^verbatim>\<open>glob_file\<close> of \<^verbatim>\<open>utils.file_io\<close>, which is not part of
  the sources. The spec calls its use in \<^verbatim>\<open>run\<close> a stem-prefix glob under the
  artifact's parent directory that collects the sibling files sharing the stem, and
  its use in \<^verbatim>\<open>run_dataset\<close> the discovery of the files matching a pattern. The
  model returns the files of the directory whose name matches the pattern, where
  \<^verbatim>\<open>*\<close> (the one wildcard the sources write) stands for any run of characters and
  every other character for itself; with \<^verbatim>\<open>fullpath\<close> the paths are full, otherwise
  relative to the directory.
\<close>

fun glob_match :: "string \<Rightarrow> string \<Rightarrow> bool" where
  "glob_match [] s = (s = [])"
| "glob_match (p # ps) [] = (p = CHR ''*'' \<and> glob_match ps [])"
| "glob_match (p # ps) (c # cs) =
     (if p = CHR ''*'' then glob_match ps (c # cs) \<or> glob_match (p # ps) cs
      else p = c \<and> glob_match ps cs)"

fun is_file :: "node \<Rightarrow> bool" where
  "is_file (File c) = True"
| "is_file Dir = False"

definition glob_file :: "filesystem \<Rightarrow> path \<Rightarrow> string \<Rightarrow> bool \<Rightarrow> path list" where
  "glob_file f d pat fullpath =
     map (\<lambda>(p, n). if fullpath then p else Path [] [name p])
       (filter (\<lambda>(p, n). is_file n \<and> parent p = d \<and> p \<noteq> d \<and> glob_match pat (name p)) f)"

subsection \<open>\<^verbatim>\<open>utils/processing.py\<close>: the command executor\<close>

text \<open>
  \<^verbatim>\<open>bytes.decode('utf-8')\<close> in strict mode: the bytes must be well-formed UTF-8 (no
  overlong form, no surrogate, nothing above U+10FFFF). The decoded text is
  represented by the same bytes.
\<close>

definition cont :: "nat \<Rightarrow> bool" where
  "cont b = (0x80 \<le> b \<and> b \<le> 0xBF)"

fun utf8_valid :: "nat list \<Rightarrow> bool" where
  "utf8_valid [] = True"
| "utf8_valid (b # bs) =
     (if b < 0x80 then utf8_valid bs
      else if 0xC2 \<le> b \<and> b \<le> 0xDF then
        (case bs of
           c1 # rest \<Rightarrow> cont c1 \<and> utf8_valid rest
         | _ \<Rightarrow> False)
      else if 0xE0 \<le> b \<and> b \<le> 0xEF then
        (case bs of
           c1 # c2 # rest \<Rightarrow>
             (if b = 0xE0 then 0xA0 \<le> c1 \<and> c1 \<le> 0xBF
              else if b = 0xED then 0x80 \<le> c1 \<and> c1 \<le> 0x9F
              else cont c1) \<and> cont c2 \<and> utf8_valid rest
         | _ \<Rightarrow> False)
      else if 0xF0 \<le> b \<and> b \<le> 0xF4 then
        (case bs of
           c1 # c2 # c3 # rest \<Rightarrow>
             (if b = 0xF0 then 0x90 \<le> c1 \<and> c1 \<le> 0xBF
              else if b = 0xF4 then 0x80 \<le> c1 \<and> c1 \<le> 0x8F
              else cont c1) \<and> cont c2 \<and> cont c3 \<and> utf8_valid rest
         | _ \<Rightarrow> False)
      else False)"

definition bytes_decode :: "string \<Rightarrow> exn + string" where
  "bytes_decode bs = (if utf8_valid (map of_char bs) then Inr bs else Inl UnicodeDecodeError)"

text \<open>
  \<^verbatim>\<open>subprocess.run(cmd, capture_output=True, shell=shell, cwd=cwd)\<close> is the operating
  system's: a parameter of the model. It raises (the executable is missing, the
  argument vector is empty, \<dots>) or returns the completed process.
\<close>

record completed =
  returncode :: int
  stdout :: string
  stderr :: string

type_synonym sp_run = "string list \<Rightarrow> bool \<Rightarrow> string option \<Rightarrow> env \<Rightarrow> (exn + completed) \<times> env"

definition cmd_line :: "string list \<Rightarrow> string" where
  "cmd_line cmd = concat (map (\<lambda>s. s @ '' '') cmd)"

text \<open>
  \<^verbatim>\<open>execute_cmd\<close>. The call of \<^verbatim>\<open>sp.run\<close> stands before the \<^verbatim>\<open>try\<close>; the handler of
  the failed assertion logs, decodes and prints the two streams, and returns
  \<^verbatim>\<open>False\<close>.
\<close>

definition execute_cmd ::
  "sp_run \<Rightarrow> string list \<Rightarrow> bool \<Rightarrow> string option \<Rightarrow> env \<Rightarrow> (exn + bool) \<times> env" where
  "execute_cmd run cmd shell cwd e =
     (case run cmd shell cwd e of
        (Inl x, e1) \<Rightarrow> (Inl x, e1)
      | (Inr ret, e1) \<Rightarrow>
          if returncode ret = 0 then (Inr True, e1)
          else
            (let e2 = emit (LogInfo (''The stdout and stderr of executed command: '' @ cmd_line cmd)) e1
             in case bytes_decode (stdout ret) of
                  Inl x \<Rightarrow> (Inl x, e2)
                | Inr out \<Rightarrow>
                    (let e3 = emit (Print (newline # '' '' @ out)) e2
                     in case bytes_decode (stderr ret) of
                          Inl x \<Rightarrow> (Inl x, e3)
                        | Inr err \<Rightarrow> (Inr False, emit (Print (newline # '' '' @ err)) e3))))"

subsection \<open>The state of a run: the environment and the calls made\<close>

datatype pool_size = CpuCount | Workers nat

record metrics_args =
  ref_pc :: path
  target_pc :: path
  m_color :: int
  m_resolution :: "int option"
  enc_t :: real
  dec_t :: real
  m_bin_files :: "path list"

text \<open>
  The calls that \<^verbatim>\<open>parallel\<close> and \<^verbatim>\<open>run\<close> make, in order. A codec's \<^verbatim>\<open>encode\<close> and
  \<^verbatim>\<open>decode\<close> work on the environment and have no access to this list.
\<close>

datatype action =
    PoolCreated pool_size
  | EncodeCall string string
  | DecodeCall string string
  | EvaluateCall metrics_args
  | WriteLog path string

record state =
  world :: env
  calls :: "action list"

definition lift :: "(env \<Rightarrow> 'r \<times> env) \<Rightarrow> state \<Rightarrow> 'r \<times> state" where
  "lift f s = (case f (world s) of (r, w) \<Rightarrow> (r, s\<lparr>world := w\<rparr>))"

definition record_call :: "action \<Rightarrow> state \<Rightarrow> state" where
  "record_call a s = s\<lparr>calls := calls s @ [a]\<rparr>"

text \<open>
  \<^verbatim>\<open>timer\<close>: \<^verbatim>\<open>time.time()\<close> before and after the call; an exception of \<^verbatim>\<open>func\<close> is
  not caught.
\<close>

definition timer :: "(state \<Rightarrow> exn option \<times> state) \<Rightarrow> state \<Rightarrow> (exn + real) \<times> state" where
  "timer func s =
     (let start_time = clock (world s)
      in case func s of
           (Some x, s') \<Rightarrow> (Inl x, s')
         | (None, s') \<Rightarrow> (Inr (clock (world s') - start_time), s'))"

subsection \<open>\<^verbatim>\<open>utils/processing.py\<close>: the parallel dispatcher\<close>

text \<open>The keyword arguments of \<^verbatim>\<open>GPUtil.getAvailable\<close>.\<close>

record gpu_policy =
  order :: string
  limit :: nat
  maxLoad :: real
  maxMemory :: real
  includeNan :: bool
  excludeID :: "nat list"
  excludeUUID :: "string list"

definition fixed_policy :: gpu_policy where
  "fixed_policy =
     \<lparr>order = ''first'', limit = 8, maxLoad = 0.5, maxMemory = 0.2, includeNan = False,
      excludeID = [], excludeUUID = []\<rparr>"

definition no_gpu_msg :: string where
  "no_gpu_msg =
     ''No available GPU. Check with the threshold parameters of ``GPUtil.getAvailable()``''"

text \<open>
  \<^verbatim>\<open>list(tqdm(pool.imap_unordered(func, filelist), ...))\<close> inside
  \<^verbatim>\<open>with Pool(process) as pool\<close>. The workers run the jobs at the same time, each in
  its own process, and the parent takes the results in the order in which the jobs
  finish. The result of a job that raised re-raises the exception in the parent,
  which leaves the \<^verbatim>\<open>with\<close> block; leaving it terminates the pool, whatever the other
  workers are doing.

  Two things here are the scheduler's and not the program's, and both are
  parameters:
  \<^item> \<open>finish_order\<close>, the order in which the jobs of a file list deliver their
    results;
  \<^item> \<open>unfinished\<close>, what the jobs that had not delivered a result when the exception
    was re-raised did to the state before the pool was terminated: nothing, a part
    of their work, or all of it.
  A job that delivers its result is one step of the model: the steps of jobs that
  run at the same time are not interleaved, which is how jobs behave that do not
  touch each other's files.
\<close>

type_synonym 'a job = "'a \<Rightarrow> state \<Rightarrow> exn option \<times> state"

type_synonym 'a unfinished = "'a job \<Rightarrow> 'a list \<Rightarrow> state \<Rightarrow> state"

fun imap_collect :: "'a unfinished \<Rightarrow> 'a job \<Rightarrow> 'a list \<Rightarrow> state \<Rightarrow> exn option \<times> state" where
  "imap_collect unfinished func [] s = (None, s)"
| "imap_collect unfinished func (x # xs) s =
     (case func x s of
        (Some ex, s') \<Rightarrow> (Some ex, unfinished func xs s')
      | (None, s') \<Rightarrow> imap_collect unfinished func xs s')"

text \<open>
  \<^verbatim>\<open>parallel\<close>. \<open>getAvailable\<close> is GPUtil's query; it and the two parameters of the
  pool are outside the sources.
\<close>

definition parallel ::
  "(gpu_policy \<Rightarrow> nat list) \<Rightarrow> ('a list \<Rightarrow> 'a list) \<Rightarrow> 'a unfinished \<Rightarrow>
   'a job \<Rightarrow> 'a list \<Rightarrow> bool \<Rightarrow> state \<Rightarrow> exn option \<times> state" where
  "parallel getAvailable finish_order unfinished func filelist use_gpu s =
     (if use_gpu then
        (let deviceIDs = getAvailable fixed_policy;
             process = length deviceIDs
         in if process \<le> 0
            then (Some (ValueError []), s\<lparr>world := emit (LogError no_gpu_msg) (world s)\<rparr>)
            else imap_collect unfinished func (finish_order filelist)
                   (record_call (PoolCreated (Workers process)) s))
      else imap_collect unfinished func (finish_order filelist)
             (record_call (PoolCreated CpuCount) s))"

subsection \<open>\<^verbatim>\<open>algs_wrapper/base.py\<close>: path resolution and the single-file pipeline\<close>

text \<open>
  Reading the configuration: a missing key raises \<^verbatim>\<open>KeyError\<close>; a section where the
  code needs a scalar (or a scalar where it indexes a section) is a \<^verbatim>\<open>TypeError\<close>.
\<close>

definition cfg_scalar :: "(string \<times> cfgval) list \<Rightarrow> string \<Rightarrow> exn + string" where
  "cfg_scalar cfg k =
     (case map_of cfg k of
        None \<Rightarrow> Inl (KeyError k)
      | Some (Scalar v) \<Rightarrow> Inr v
      | Some (Section sec) \<Rightarrow> Inl (TypeError k))"

definition cfg_nested :: "(string \<times> cfgval) list \<Rightarrow> string \<Rightarrow> string \<Rightarrow> exn + string" where
  "cfg_nested cfg k1 k2 =
     (case map_of cfg k1 of
        None \<Rightarrow> Inl (KeyError k1)
      | Some (Scalar v) \<Rightarrow> Inl (TypeError k1)
      | Some (Section sec) \<Rightarrow>
          (case map_of sec k2 of
             None \<Rightarrow> Inl (KeyError k2)
           | Some v \<Rightarrow> Inr v))"

type_synonym paths = "path \<times> path \<times> path \<times> path \<times> path"

text \<open>\<^verbatim>\<open>Base.__set_filepath\<close>.\<close>

definition set_filepath ::
  "plugin \<Rightarrow> pathlike \<Rightarrow> pathlike \<Rightarrow> pathlike \<Rightarrow> pathlike \<Rightarrow> env \<Rightarrow> (exn + paths) \<times> env" where
  "set_filepath self pcfile src_dir nor_dir exp_dir e =
     (let in_pcfile = joinpath (Path_of src_dir) [pcfile];
          nor_pcfile = joinpath (Path_of nor_dir) [pcfile]
      in case cfg_scalar (algs_cfg self) ''bin_suffix'' of
           Inl x \<Rightarrow> (Inl x, e)
         | Inr suf \<Rightarrow>
        (case with_suffix (joinpath (Path_of exp_dir) [Str ''bin'', pcfile]) suf of
           Inl x \<Rightarrow> (Inl x, e)
         | Inr bin_file \<Rightarrow>
        (let out_pcfile = joinpath (Path_of exp_dir) [Str ''dec'', pcfile]
         in case with_suffix (joinpath (Path_of exp_dir) [Str ''evl'', pcfile]) ''.log'' of
           Inl x \<Rightarrow> (Inl x, e)
         | Inr evl_log \<Rightarrow>
        (case mkdir_parents (parent bin_file) (fs e) of
           (Some x, f1) \<Rightarrow> (Inl x, e\<lparr>fs := f1\<rparr>)
         | (None, f1) \<Rightarrow>
        (case mkdir_parents (parent out_pcfile) f1 of
           (Some x, f2) \<Rightarrow> (Inl x, e\<lparr>fs := f2\<rparr>)
         | (None, f2) \<Rightarrow>
        (case mkdir_parents (parent evl_log) f2 of
           (Some x, f3) \<Rightarrow> (Inl x, e\<lparr>fs := f3\<rparr>)
         | (None, f3) \<Rightarrow>
             (Inr (in_pcfile, nor_pcfile, bin_file, out_pcfile, evl_log), e\<lparr>fs := f3\<rparr>)))))))"

text \<open>
  The abstract methods of a codec. They return nothing; a failure is an exception.
\<close>

record codec =
  encode :: "plugin \<Rightarrow> string \<Rightarrow> string \<Rightarrow> env \<Rightarrow> exn option \<times> env"
  decode :: "plugin \<Rightarrow> string \<Rightarrow> string \<Rightarrow> env \<Rightarrow> exn option \<times> env"

text \<open>
  \<^verbatim>\<open>ViewIndependentMetrics().evaluate(...)\<close> (evaluator.metrics) is not part of the
  sources: a parameter that returns the report or raises.
\<close>

type_synonym evaluate = "metrics_args \<Rightarrow> env \<Rightarrow> (exn + string) \<times> env"

definition encode_step :: "codec \<Rightarrow> plugin \<Rightarrow> string \<Rightarrow> string \<Rightarrow> state \<Rightarrow> exn option \<times> state" where
  "encode_step cdc self a b s = lift (encode cdc self a b) (record_call (EncodeCall a b) s)"

definition decode_step :: "codec \<Rightarrow> plugin \<Rightarrow> string \<Rightarrow> string \<Rightarrow> state \<Rightarrow> exn option \<times> state" where
  "decode_step cdc self a b s = lift (decode cdc self a b) (record_call (DecodeCall a b) s)"

text \<open>\<^verbatim>\<open>Base.run\<close>. The result is the exception raised, if any, and the instance.\<close>

definition Base_run ::
  "codec \<Rightarrow> evaluate \<Rightarrow> plugin \<Rightarrow> pathlike \<Rightarrow> pathlike \<Rightarrow> pathlike \<Rightarrow> pathlike \<Rightarrow> int \<Rightarrow>
   int option \<Rightarrow> state \<Rightarrow> (exn option \<times> plugin) \<times> state" where
  "Base_run cdc evaluate self pcfile src_dir nor_dir exp_dir color resolution s =
     (let self1 = self\<lparr>color_attr := Some color, resolution_attr := Some resolution\<rparr>
      in case lift (set_filepath self1 pcfile src_dir nor_dir exp_dir) s of
           (Inl x, s1) \<Rightarrow> ((Some x, self1), s1)
         | (Inr (in_pcfile, nor_pcfile, bin_file, out_pcfile, evl_log), s1) \<Rightarrow>
        (case timer (encode_step cdc self1 (str_path in_pcfile) (str_path bin_file)) s1 of
           (Inl x, s2) \<Rightarrow> ((Some x, self1), s2)
         | (Inr enc_time, s2) \<Rightarrow>
        (case timer (decode_step cdc self1 (str_path bin_file) (str_path out_pcfile)) s2 of
           (Inl x, s3) \<Rightarrow> ((Some x, self1), s3)
         | (Inr dec_time, s3) \<Rightarrow>
        (let bin_files = glob_file (fs (world s3)) (parent bin_file) (stem bin_file @ ''*'') True;
             args = \<lparr>ref_pc = nor_pcfile, target_pc = out_pcfile, m_color = color,
                     m_resolution = resolution, enc_t = enc_time, dec_t = dec_time,
                     m_bin_files = bin_files\<rparr>
         in case lift (evaluate args) (record_call (EvaluateCall args) s3) of
              (Inl x, s4) \<Rightarrow> ((Some x, self1), s4)
            | (Inr ret, s4) \<Rightarrow>
           (case write_file evl_log ret (fs (world s4)) of
              Inl x \<Rightarrow> ((Some x, self1), s4)
            | Inr f' \<Rightarrow>
                ((None, self1),
                 record_call (WriteLog evl_log ret) (s4\<lparr>world := (world s4)\<lparr>fs := f'\<rparr>\<rparr>)))))))"

subsection \<open>\<^verbatim>\<open>algs_wrapper/base.py\<close>: the dataset pipeline\<close>

text \<open>A dataset's section of the datasets file.\<close>

record dataset =
  dataset_dir :: string
  test_pattern :: string
  dataset_w_normal_dir :: string
  ds_color :: int
  ds_resolution :: "int option"

text \<open>
  What \<^verbatim>\<open>run_dataset\<close> takes from outside the sources: GPUtil's query and the two
  parameters of the pool (for \<^verbatim>\<open>parallel\<close>), \<^verbatim>\<open>load_cfg\<close> of utils.file_io, the
  resolved location of the default datasets file, and the \<^verbatim>\<open>run\<close> that \<^verbatim>\<open>self.run\<close>
  resolves to.
\<close>

record externals =
  getAvailable :: "gpu_policy \<Rightarrow> nat list"
  finish_order :: "pathlike list \<Rightarrow> pathlike list"
  unfinished :: "pathlike unfinished"
  load_cfg :: "pathlike \<Rightarrow> exn + (string \<times> dataset) list"
  default_ds_cfg :: path
  run_method ::
    "plugin \<Rightarrow> pathlike \<Rightarrow> pathlike \<Rightarrow> pathlike \<Rightarrow> pathlike \<Rightarrow> int \<Rightarrow> int option \<Rightarrow> state \<Rightarrow>
     exn option \<times> state"

definition start_msg :: "string \<Rightarrow> string \<Rightarrow> path \<Rightarrow> string" where
  "start_msg ds_name cls exp_dir =
     ''Start to run experiments on '' @ ds_name @ '' dataset with '' @ cls @ '' in ''
       @ str_path exp_dir"

definition run_dataset ::
  "externals \<Rightarrow> plugin \<Rightarrow> string \<Rightarrow> pathlike \<Rightarrow> pathlike \<Rightarrow> state \<Rightarrow> exn option \<times> state" where
  "run_dataset ext self ds_name exp_dir ds_cfg_file s =
     (case rate_attr self of
        None \<Rightarrow> (Some (AttributeError ''_rate''), s)
      | Some r \<Rightarrow>
     (let exp_dir' = joinpath (Path_of exp_dir) [Str r];
          s1 = s\<lparr>world := emit (LogInfo (start_msg ds_name (cls_name self) exp_dir')) (world s)\<rparr>;
          ds_cfg_file' = (if ds_cfg_file = Str ''cfgs/datasets.yml''
                          then Pth (default_ds_cfg ext) else ds_cfg_file)
      in case load_cfg ext ds_cfg_file' of
           Inl x \<Rightarrow> (Some x, s1)
         | Inr ds_cfg \<Rightarrow>
        (case map_of ds_cfg ds_name of
           None \<Rightarrow> (Some (KeyError ds_name), s1)
         | Some ds \<Rightarrow>
        (let pc_files = map Pth (glob_file (fs (world s1)) (Path_of (Str (dataset_dir ds)))
                                   (test_pattern ds) False);
             prun = (\<lambda>pcfile. run_method ext self pcfile (Str (dataset_dir ds))
                                (Str (dataset_w_normal_dir ds)) (Pth exp_dir') (ds_color ds)
                                (ds_resolution ds))
         in parallel (getAvailable ext) (finish_order ext) (unfinished ext) prun pc_files
              (use_gpu_attr self) s1))))"

text \<open>\<^verbatim>\<open>self.run\<close> of a class that does not override \<^verbatim>\<open>Base.run\<close>.\<close>

definition Base_run_method ::
  "codec \<Rightarrow> evaluate \<Rightarrow> plugin \<Rightarrow> pathlike \<Rightarrow> pathlike \<Rightarrow> pathlike \<Rightarrow> pathlike \<Rightarrow> int \<Rightarrow>
   int option \<Rightarrow> state \<Rightarrow> exn option \<times> state" where
  "Base_run_method cdc evaluate self pcfile src_dir nor_dir exp_dir color resolution s =
     (case Base_run cdc evaluate self pcfile src_dir nor_dir exp_dir color resolution s of
        ((r, self'), s') \<Rightarrow> (r, s'))"

subsection \<open>\<^verbatim>\<open>algs_wrapper/GPCC.py\<close>\<close>

text \<open>
  \<^verbatim>\<open>encode\<close> and \<^verbatim>\<open>decode\<close> build the command and assert that the executor returned
  \<^verbatim>\<open>True\<close>: a command that fails raises \<^verbatim>\<open>AssertionError\<close>.
\<close>

definition GPCC_encode :: "sp_run \<Rightarrow> plugin \<Rightarrow> string \<Rightarrow> string \<Rightarrow> env \<Rightarrow> exn option \<times> env" where
  "GPCC_encode run self in_pcfile bin_file e =
     (case cfg_scalar (algs_cfg self) ''encoder'' of
        Inl x \<Rightarrow> (Some x, e)
      | Inr encoder \<Rightarrow>
     (case rate self of
        Inl x \<Rightarrow> (Some x, e)
      | Inr r \<Rightarrow>
     (case cfg_nested (algs_cfg self) r ''positionQuantizationScale'' of
        Inl x \<Rightarrow> (Some x, e)
      | Inr pqs \<Rightarrow>
     (case color_attr self of
        None \<Rightarrow> (Some (AttributeError ''_color''), e)
      | Some c \<Rightarrow>
     (let cmd = [encoder,
                 ''--uncompressedDataPath='' @ in_pcfile,
                 ''--compressedStreamPath='' @ bin_file,
                 ''--positionQuantizationScale='' @ pqs,
                 ''--mergeDuplicatedPoints=1'',
                 ''--mode=0''] @ (if c = 1 then [''--attribute=color''] else [])
      in case cfg_scalar (algs_cfg self) ''rootdir'' of
           Inl x \<Rightarrow> (Some x, e)
         | Inr rootdir \<Rightarrow>
        (case execute_cmd run cmd False (Some rootdir) e of
           (Inl x, e') \<Rightarrow> (Some x, e')
         | (Inr ok, e') \<Rightarrow> if ok then (None, e') else (Some AssertionError, e')))))))"

definition GPCC_decode :: "sp_run \<Rightarrow> plugin \<Rightarrow> string \<Rightarrow> string \<Rightarrow> env \<Rightarrow> exn option \<times> env" where
  "GPCC_decode run self bin_file out_pcfile e =
     (case cfg_scalar (algs_cfg self) ''decoder'' of
        Inl x \<Rightarrow> (Some x, e)
      | Inr decoder \<Rightarrow>
     (let cmd = [decoder,
                 ''--compressedStreamPath='' @ bin_file,
                 ''--reconstructedDataPath='' @ out_pcfile,
                 ''--mode=1'']
      in case cfg_scalar (algs_cfg self) ''rootdir'' of
           Inl x \<Rightarrow> (Some x, e)
         | Inr rootdir \<Rightarrow>
        (case execute_cmd run cmd False (Some rootdir) e of
           (Inl x, e') \<Rightarrow> (Some x, e')
         | (Inr ok, e') \<Rightarrow> if ok then (None, e') else (Some AssertionError, e'))))"

definition GPCC :: "sp_run \<Rightarrow> codec" where
  "GPCC run = \<lparr>encode = GPCC_encode run, decode = GPCC_decode run\<rparr>"

subsection \<open>\<^verbatim>\<open>algs_wrapper/PCGCv1.py\<close>\<close>

text \<open>
  Attribute lookup. Inside a class body a name with two leading underscores that
  does not end in two underscores is mangled with the class name; the class
  dictionaries below hold the names the two class bodies define, as mangled. The
  base \<^verbatim>\<open>object\<close> adds names that begin and end with two underscores only.
\<close>

definition mangle :: "string \<Rightarrow> string \<Rightarrow> string" where
  "mangle cls n =
     (if take 2 n = ''__'' \<and> drop (length n - 2) n \<noteq> ''__''
      then ''_'' @ dropWhile (\<lambda>c. c = CHR ''_'') cls @ n
      else n)"

definition Base_dict :: "string list" where
  "Base_dict = map (mangle ''Base'')
     [''__init__'', ''encode'', ''decode'', ''rate'', ''run_dataset'', ''run'', ''__set_filepath'']"

definition PCGCv1_dict :: "string list" where
  "PCGCv1_dict = map (mangle ''PCGCv1'')
     [''__init__'', ''make_encode_cmd'', ''make_decode_cmd'', ''run'']"

text \<open>The instance dictionary: the attributes assigned so far.\<close>

definition instance_dict :: "plugin \<Rightarrow> string list" where
  "instance_dict self =
     [''_algs_cfg'', ''_use_gpu'']
     @ (if rate_attr self = None then [] else [''_rate''])
     @ (if color_attr self = None then [] else [''_color''])
     @ (if resolution_attr self = None then [] else [''_resolution''])
     @ (if pc_scale_attr self = None then [] else [''_pc_scale''])"

text \<open>\<open>getattr_PCGCv1 self n\<close>: the lookup of \<open>n\<close> on an instance of \<^verbatim>\<open>PCGCv1\<close>.\<close>

definition getattr_PCGCv1 :: "plugin \<Rightarrow> string \<Rightarrow> exn option" where
  "getattr_PCGCv1 self n =
     (if n \<in> set (instance_dict self) \<or> n \<in> set PCGCv1_dict \<or> n \<in> set Base_dict
      then None else Some (AttributeError n))"

definition make_encode_cmd :: "plugin \<Rightarrow> string \<Rightarrow> string \<Rightarrow> exn + string list" where
  "make_encode_cmd self in_pcfile bin_file =
     (case cfg_scalar (algs_cfg self) ''python'' of Inl x \<Rightarrow> Inl x | Inr python \<Rightarrow>
     (case cfg_scalar (algs_cfg self) ''test_script'' of Inl x \<Rightarrow> Inl x | Inr script \<Rightarrow>
     (case rate self of Inl x \<Rightarrow> Inl x | Inr r \<Rightarrow>
     (case cfg_nested (algs_cfg self) r ''ckpt_dir'' of Inl x \<Rightarrow> Inl x | Inr ckpt \<Rightarrow>
     (case cfg_nested (algs_cfg self) r ''scale'' of Inl x \<Rightarrow> Inl x | Inr scale \<Rightarrow>
     (case cfg_nested (algs_cfg self) r ''rho'' of Inl x \<Rightarrow> Inl x | Inr rho \<Rightarrow>
        Inr [python, script, ''compress'', in_pcfile, bin_file,
             ''--ckpt_dir'', ckpt, ''--scale'', scale, ''--rho'', rho]))))))"

definition make_decode_cmd :: "plugin \<Rightarrow> string \<Rightarrow> string \<Rightarrow> exn + string list" where
  "make_decode_cmd self bin_file out_pcfile =
     (case cfg_scalar (algs_cfg self) ''python'' of Inl x \<Rightarrow> Inl x | Inr python \<Rightarrow>
     (case cfg_scalar (algs_cfg self) ''test_script'' of Inl x \<Rightarrow> Inl x | Inr script \<Rightarrow>
     (case rate self of Inl x \<Rightarrow> Inl x | Inr r \<Rightarrow>
     (case cfg_nested (algs_cfg self) r ''ckpt_dir'' of Inl x \<Rightarrow> Inl x | Inr ckpt \<Rightarrow>
     (case cfg_nested (algs_cfg self) r ''scale'' of Inl x \<Rightarrow> Inl x | Inr scale \<Rightarrow>
     (case cfg_nested (algs_cfg self) r ''rho'' of Inl x \<Rightarrow> Inl x | Inr rho \<Rightarrow>
        Inr [python, script, ''decompress'', bin_file, out_pcfile,
             ''--ckpt_dir'', ckpt, ''--scale'', scale, ''--rho'', rho]))))))"

text \<open>
  \<^verbatim>\<open>PCGCv1.run\<close>. The body calls \<^verbatim>\<open>self._set_filepath\<close> and \<^verbatim>\<open>self._run_command\<close>;
  what these would be bound to, were the lookup to succeed, is not in the sources:
  \<open>bound_set_filepath\<close> and \<open>bound_run_command\<close> are parameters. The latter returns
  the boolean and the time it left in the one-element list.
\<close>

definition PCGCv1_run ::
  "(plugin \<Rightarrow> pathlike \<Rightarrow> pathlike \<Rightarrow> pathlike \<Rightarrow> pathlike \<Rightarrow> state \<Rightarrow> (exn + paths) \<times> state) \<Rightarrow>
   (plugin \<Rightarrow> string list \<Rightarrow> real \<Rightarrow> 'q option \<Rightarrow> state \<Rightarrow> (exn + bool \<times> real) \<times> state) \<Rightarrow>
   evaluate \<Rightarrow> plugin \<Rightarrow> pathlike \<Rightarrow> pathlike \<Rightarrow> pathlike \<Rightarrow> pathlike \<Rightarrow> int \<Rightarrow> bool \<Rightarrow>
   int option \<Rightarrow> 'q option \<Rightarrow> state \<Rightarrow> (exn option \<times> plugin) \<times> state" where
  "PCGCv1_run bound_set_filepath bound_run_command evaluate self pcfile src_dir nor_dir exp_dir
     scale color resolution gpu_queue s =
     (let self1 = self\<lparr>pc_scale_attr := Some scale, color_attr := Some (if color then 1 else 0)\<rparr>
      in case getattr_PCGCv1 self1 ''_set_filepath'' of
           Some x \<Rightarrow> ((Some x, self1), s)
         | None \<Rightarrow>
        (case bound_set_filepath self1 pcfile src_dir nor_dir exp_dir s of
           (Inl x, s1) \<Rightarrow> ((Some x, self1), s1)
         | (Inr (in_pcfile, nor_pcfile, bin_file, out_pcfile, evl_log), s1) \<Rightarrow>
        (case make_encode_cmd self1 (str_path in_pcfile) (str_path bin_file) of
           Inl x \<Rightarrow> ((Some x, self1), s1)
         | Inr enc_cmd \<Rightarrow>
        (case make_decode_cmd self1 (str_path bin_file) (str_path out_pcfile) of
           Inl x \<Rightarrow> ((Some x, self1), s1)
         | Inr dec_cmd \<Rightarrow>
        (case getattr_PCGCv1 self1 ''_run_command'' of
           Some x \<Rightarrow> ((Some x, self1), s1)
         | None \<Rightarrow>
        (case bound_run_command self1 enc_cmd (- 1) gpu_queue
                (record_call (EncodeCall (str_path in_pcfile) (str_path bin_file)) s1) of
           (Inl x, s2) \<Rightarrow> ((Some x, self1), s2)
         | (Inr (False, enc_time), s2) \<Rightarrow> ((None, self1), s2)
         | (Inr (True, enc_time), s2) \<Rightarrow>
        (case bound_run_command self1 dec_cmd (- 1) gpu_queue
                (record_call (DecodeCall (str_path bin_file) (str_path out_pcfile)) s2) of
           (Inl x, s3) \<Rightarrow> ((Some x, self1), s3)
         | (Inr (False, dec_time), s3) \<Rightarrow> ((None, self1), s3)
         | (Inr (True, dec_time), s3) \<Rightarrow>
        (let bin_files = glob_file (fs (world s3)) (parent bin_file) (stem bin_file @ ''*'') True;
             args = \<lparr>ref_pc = nor_pcfile, target_pc = out_pcfile,
                     m_color = (if color then 1 else 0), m_resolution = resolution,
                     enc_t = enc_time, dec_t = dec_time, m_bin_files = bin_files\<rparr>
         in case lift (evaluate args) (record_call (EvaluateCall args) s3) of
              (Inl x, s4) \<Rightarrow> ((Some x, self1), s4)
            | (Inr ret, s4) \<Rightarrow>
           (case write_file evl_log ret (fs (world s4)) of
              Inl x \<Rightarrow> ((Some x, self1), s4)
            | Inr f' \<Rightarrow>
                ((None, self1),
                 record_call (WriteLog evl_log ret)
                   (s4\<lparr>world := (world s4)\<lparr>fs := f'\<rparr>\<rparr>)))))))))))"

subsection \<open>Concrete inputs for the examples\<close>

definition env0 :: env where
  "env0 = \<lparr>fs = [], console = [], clock = 0\<rparr>"

definition state0 :: state where
  "state0 = \<lparr>world = env0, calls = []\<rparr>"

text \<open>
  An operating system for the examples: the programs installed; on its arguments a
  program ends with an exit code and has written some files; a run takes one second.
  A program that is not installed, or an empty argument vector, makes
  \<^verbatim>\<open>subprocess.run\<close> raise.
\<close>

type_synonym program = "string list \<Rightarrow> int \<times> (string \<times> string) list"

definition write_all :: "(string \<times> string) list \<Rightarrow> filesystem \<Rightarrow> filesystem" where
  "write_all files f = fold (\<lambda>(n, c). AList.update (Path_of (Str n)) (File c)) files f"

definition demo_os :: "(string \<times> program) list \<Rightarrow> sp_run" where
  "demo_os progs cmd shell cwd e =
     (case cmd of
        [] \<Rightarrow> (Inl IndexError, e)
      | prog # args \<Rightarrow>
          (case map_of progs prog of
             None \<Rightarrow> (Inl (FileNotFoundError prog), e)
           | Some run \<Rightarrow>
               (Inr \<lparr>returncode = fst (run args), stdout = ''out'', stderr = ''err''\<rparr>,
                e\<lparr>fs := write_all (snd (run args)) (fs e), clock := clock e + 1\<rparr>)))"

text \<open>The value of the first argument \<^verbatim>\<open>key=value\<close> with the given key.\<close>

fun arg_value :: "string \<Rightarrow> string list \<Rightarrow> string option" where
  "arg_value k [] = None"
| "arg_value k (a # as) =
     (if take (length k) a = k then Some (drop (length k) a) else arg_value k as)"

text \<open>
  An encoder that rejects the input \<^verbatim>\<open>/data/src/bad.ply\<close> and otherwise writes the
  stream and, next to it, a side file with the same stem and the suffix \<^verbatim>\<open>.aux\<close>; a
  decoder that writes the reconstruction.
\<close>

definition side_file :: "string \<Rightarrow> string" where
  "side_file b =
     (case with_suffix (Path_of (Str b)) ''.aux'' of
        Inr p \<Rightarrow> str_path p
      | Inl x \<Rightarrow> b @ ''.aux'')"

definition demo_enc :: program where
  "demo_enc args =
     (case (arg_value ''--uncompressedDataPath='' args, arg_value ''--compressedStreamPath='' args) of
        (Some i, Some b) \<Rightarrow>
          if i = ''/data/src/bad.ply'' then (1, [])
          else (0, [(b, ''stream''), (side_file b, ''side'')])
      | _ \<Rightarrow> (2, []))"

definition demo_dec :: program where
  "demo_dec args =
     (case arg_value ''--reconstructedDataPath='' args of
        Some out \<Rightarrow> (0, [(out, ''points'')])
      | None \<Rightarrow> (2, []))"

definition picky_os :: sp_run where
  "picky_os = demo_os [(''tmc3enc'', demo_enc), (''tmc3dec'', demo_dec)]"

text \<open>The same encoder with a decoder that always fails.\<close>

definition broken_dec_os :: sp_run where
  "broken_dec_os = demo_os [(''tmc3enc'', demo_enc), (''tmc3dec'', \<lambda>args. (1, []))]"

definition gpcc_cfg :: "(string \<times> cfgval) list" where
  "gpcc_cfg =
     [(''encoder'', Scalar ''tmc3enc''), (''decoder'', Scalar ''tmc3dec''),
      (''rootdir'', Scalar ''/opt/gpcc''), (''bin_suffix'', Scalar ''.bin''),
      (''r1'', Section [(''positionQuantizationScale'', ''0.125'')])]"

definition gpcc_r1 :: plugin where
  "gpcc_r1 = (Base_init ''GPCC'' gpcc_cfg False)\<lparr>rate_attr := Some ''r1''\<rparr>"

text \<open>A metrics tool whose report lists the artifact files it was given.\<close>

definition demo_report :: evaluate where
  "demo_report args e =
     (Inr (''files:'' @ concat (map (\<lambda>p. '' '' @ str_path p) (m_bin_files args))), e)"

definition cube_report :: string where
  "cube_report = ''files: /exp/r1/bin/cube.bin /exp/r1/bin/cube.aux''"

text \<open>
  A schedule in which the workers still at work finish their jobs before the pool is
  terminated.
\<close>

definition finish_all :: "'a unfinished" where
  "finish_all func xs s = foldl (\<lambda>s x. snd (func x s)) s xs"


definition no_gpu :: "gpu_policy \<Rightarrow> nat list" where
  "no_gpu p = []"

definition demo_job :: "pathlike \<Rightarrow> state \<Rightarrow> exn option \<times> state" where
  "demo_job pcfile =
     Base_run_method (GPCC picky_os) demo_report gpcc_r1 pcfile (Str ''/data/src'')
       (Str ''/data/nor'') (Str ''/exp/r1'') 0 None"

definition demo_ext :: "sp_run \<Rightarrow> externals" where
  "demo_ext os =
     \<lparr>getAvailable = no_gpu,
      finish_order = (\<lambda>xs. xs),
      unfinished = finish_all,
      load_cfg = (\<lambda>f. Inr [(''demo'',
         \<lparr>dataset_dir = ''/data/src'', test_pattern = ''*.ply'',
          dataset_w_normal_dir = ''/data/nor'', ds_color = 0, ds_resolution = None\<rparr>)]),
      default_ds_cfg = Path ''/'' [''opt'', ''PCCArena'', ''cfgs'', ''datasets.yml''],
      run_method = Base_run_method (GPCC os) demo_report\<rparr>"

text \<open>The directories that path resolution creates under \<^verbatim>\<open>/exp/r1\<close>.\<close>

definition exp_tree :: filesystem where
  "exp_tree =
     [(Path ''/'' [''exp''], Dir),
      (Path ''/'' [''exp'', ''r1''], Dir),
      (Path ''/'' [''exp'', ''r1'', ''bin''], Dir),
      (Path ''/'' [''exp'', ''r1'', ''dec''], Dir),
      (Path ''/'' [''exp'', ''r1'', ''evl''], Dir)]"

definition gpcc_running :: plugin where
  "gpcc_running = gpcc_r1\<lparr>color_attr := Some 0, resolution_attr := Some None\<rparr>"

definition cube_paths :: paths where
  "cube_paths =
     (Path ''/'' [''data'', ''src'', ''cube.ply''],
      Path ''/'' [''data'', ''nor'', ''cube.ply''],
      Path ''/'' [''exp'', ''r1'', ''bin'', ''cube.bin''],
      Path ''/'' [''exp'', ''r1'', ''dec'', ''cube.ply''],
      Path ''/'' [''exp'', ''r1'', ''evl'', ''cube.log''])"

definition bad_paths :: paths where
  "bad_paths =
     (Path ''/'' [''data'', ''src'', ''bad.ply''],
      Path ''/'' [''data'', ''nor'', ''bad.ply''],
      Path ''/'' [''exp'', ''r1'', ''bin'', ''bad.bin''],
      Path ''/'' [''exp'', ''r1'', ''dec'', ''bad.ply''],
      Path ''/'' [''exp'', ''r1'', ''evl'', ''bad.log''])"

definition failed_console :: "string \<Rightarrow> out_line list" where
  "failed_console cmd =
     [LogInfo (''The stdout and stderr of executed command: '' @ cmd),
      Print (newline # '' out''), Print (newline # '' err'')]"

definition bad_enc_cmd :: string where
  "bad_enc_cmd = ''tmc3enc --uncompressedDataPath=/data/src/bad.ply --compressedStreamPath=/exp/r1/bin/bad.bin --positionQuantizationScale=0.125 --mergeDuplicatedPoints=1 --mode=0 ''"

definition cube_dec_cmd :: string where
  "cube_dec_cmd = ''tmc3dec --compressedStreamPath=/exp/r1/bin/cube.bin --reconstructedDataPath=/exp/r1/dec/cube.ply --mode=1 ''"

definition cube_streams :: filesystem where
  "cube_streams =
     [(Path ''/'' [''exp'', ''r1'', ''bin'', ''cube.bin''], File ''stream''),
      (Path ''/'' [''exp'', ''r1'', ''bin'', ''cube.aux''], File ''side'')]"

definition cube_done :: filesystem where
  "cube_done =
     exp_tree @ cube_streams
       @ [(Path ''/'' [''exp'', ''r1'', ''dec'', ''cube.ply''], File ''points'')]"

definition cube_args :: metrics_args where
  "cube_args =
     \<lparr>ref_pc = Path ''/'' [''data'', ''nor'', ''cube.ply''],
      target_pc = Path ''/'' [''exp'', ''r1'', ''dec'', ''cube.ply''],
      m_color = 0, m_resolution = None, enc_t = 1, dec_t = 1,
      m_bin_files = [Path ''/'' [''exp'', ''r1'', ''bin'', ''cube.bin''],
                     Path ''/'' [''exp'', ''r1'', ''bin'', ''cube.aux'']]\<rparr>"

definition cube_log :: path where
  "cube_log = Path ''/'' [''exp'', ''r1'', ''evl'', ''cube.log'']"

definition cube_calls :: "action list" where
  "cube_calls =
     [EncodeCall ''/data/src/cube.ply'' ''/exp/r1/bin/cube.bin'',
      DecodeCall ''/exp/r1/bin/cube.bin'' ''/exp/r1/dec/cube.ply'',
      EvaluateCall cube_args,
      WriteLog cube_log cube_report]"

text \<open>A data set of one file.\<close>

definition data_tree :: filesystem where
  "data_tree =
     [(Path ''/'' [''data''], Dir),
      (Path ''/'' [''data'', ''src''], Dir),
      (Path ''/'' [''data'', ''src'', ''cube.ply''], File ''points'')]"

text \<open>
  The state after the dispatch of \<^verbatim>\<open>bad.ply\<close> and \<^verbatim>\<open>cube.ply\<close> in which the job of
  \<^verbatim>\<open>bad.ply\<close> raised first and the job of \<^verbatim>\<open>cube.ply\<close> was finished before the pool was
  terminated.
\<close>

definition raised_state :: state where
  "raised_state =
     \<lparr>world = \<lparr>fs = cube_done @ [(cube_log, File cube_report)],
                console = failed_console bad_enc_cmd, clock = 3\<rparr>,
      calls = [PoolCreated CpuCount, EncodeCall ''/data/src/bad.ply'' ''/exp/r1/bin/bad.bin'']
              @ cube_calls\<rparr>"

section \<open>Properties\<close>

subsection \<open>The rate tag\<close>


lemma match_here_prefix: "match_here s = Some m \<Longrightarrow> prefix m s"
proof (cases s)
  case Nil
  assume "match_here s = Some m"
  with Nil show ?thesis by simp
next
  case (Cons c cs)
  assume "match_here s = Some m"
  with Cons have m: "m = c # takeWhile digit19 cs"
    by (simp split: if_splits)
  have "prefix (takeWhile digit19 cs) cs"
    by (metis prefixI takeWhile_dropWhile_id)
  then show ?thesis using Cons m by simp
qed

lemma match_here_search: "match_here s = Some m \<Longrightarrow> re_search_rate s = Some m"
  by (cases s) (simp_all add: re_search_rate_def)

lemma match_here_iff:
  "match_here s = Some m \<longleftrightarrow>
     (\<exists>ds rest. s = CHR ''r'' # ds @ rest \<and> ds \<noteq> [] \<and> (\<forall>d\<in>set ds. digit19 d)
        \<and> (rest = [] \<or> \<not> digit19 (hd rest)) \<and> m = CHR ''r'' # ds)"
proof
  assume a: "match_here s = Some m"
  then obtain c cs where s: "s = c # cs" by (cases s) simp_all
  from a s have c: "c = CHR ''r''" and ne: "takeWhile digit19 cs \<noteq> []"
    and m: "m = c # takeWhile digit19 cs"
    by (simp_all split: if_splits)
  let ?ds = "takeWhile digit19 cs" and ?rest = "dropWhile digit19 cs"
  have "s = CHR ''r'' # ?ds @ ?rest" using s c by simp
  moreover have "\<forall>d\<in>set ?ds. digit19 d" by (auto dest: set_takeWhileD)
  moreover have "?rest = [] \<or> \<not> digit19 (hd ?rest)"
    by (metis hd_dropWhile)
  ultimately show "\<exists>ds rest. s = CHR ''r'' # ds @ rest \<and> ds \<noteq> [] \<and> (\<forall>d\<in>set ds. digit19 d)
        \<and> (rest = [] \<or> \<not> digit19 (hd rest)) \<and> m = CHR ''r'' # ds"
    using ne m c by blast
next
  assume "\<exists>ds rest. s = CHR ''r'' # ds @ rest \<and> ds \<noteq> [] \<and> (\<forall>d\<in>set ds. digit19 d)
        \<and> (rest = [] \<or> \<not> digit19 (hd rest)) \<and> m = CHR ''r'' # ds"
  then obtain ds rest where s: "s = CHR ''r'' # ds @ rest" and ne: "ds \<noteq> []"
    and all: "\<forall>d\<in>set ds. digit19 d" and r: "rest = [] \<or> \<not> digit19 (hd rest)"
    and m: "m = CHR ''r'' # ds" by blast
  from r have "takeWhile digit19 rest = []"
    by (cases rest) auto
  with all have "takeWhile digit19 (ds @ rest) = ds"
    by (simp add: takeWhile_append2)
  with s ne m show "match_here s = Some m" by simp
qed

lemma search_from_None_iff:
  "search_from bol s = None \<longleftrightarrow>
     (bol \<longrightarrow> match_here s = None) \<and> (\<forall>pre suf. s = pre @ newline # suf \<longrightarrow> match_here suf = None)"
proof (induction s arbitrary: bol)
  case Nil
  show ?case by simp
next
  case (Cons c cs)
  have split: "(\<forall>pre suf. c # cs = pre @ newline # suf \<longrightarrow> match_here suf = None) \<longleftrightarrow>
        (c = newline \<longrightarrow> match_here cs = None)
        \<and> (\<forall>pre suf. cs = pre @ newline # suf \<longrightarrow> match_here suf = None)"
    by (auto simp: Cons_eq_append_conv)
  show ?case
    unfolding split using Cons.IH [of "c = newline"]
    by (auto split: option.splits simp del: match_here.simps)
qed

lemma re_search_rate_None_iff:
  "re_search_rate s = None \<longleftrightarrow>
     match_here s = None \<and> (\<forall>pre suf. s = pre @ newline # suf \<longrightarrow> match_here suf = None)"
  by (simp add: re_search_rate_def search_from_None_iff)

text \<open>
  C3, as the code has it. The pattern is searched with \<^verbatim>\<open>re.MULTILINE\<close>: when some
  line of the string begins with \<^verbatim>\<open>r[1-9]+\<close>, the assignment stores the match of the
  first such line and logs nothing; when the string itself begins with it, that match
  is a prefix of the string. When no line begins with it, the assignment logs the
  warning and leaves the stored tag as it was (unset on a fresh plugin).
\<close>

theorem rate_setter_stores_line_match:
  "(re_search_rate r = Some m \<longrightarrow> rate_setter self r e = (None, self\<lparr>rate_attr := Some m\<rparr>, e))
   \<and> (match_here r = Some m \<longrightarrow> re_search_rate r = Some m \<and> prefix m r)
   \<and> (re_search_rate r = None \<longrightarrow>
        fst (snd (rate_setter self r e)) = self
        \<and> snd (snd (rate_setter self r e)) = emit (LogWarning invalid_rate_msg) e)"
  by (simp add: rate_setter_def match_here_search match_here_prefix)

theorem rate_setter_stores_line_match_witness:
  "re_search_rate ''r3x'' = Some ''r3''
   \<and> rate_setter gpcc_r1 ''r3x'' env0 = (None, gpcc_r1\<lparr>rate_attr := Some ''r3''\<rparr>, env0)
   \<and> match_here ''r3x'' = Some ''r3'' \<and> prefix ''r3'' ''r3x''
   \<and> re_search_rate ''rate1'' = None
   \<and> fst (snd (rate_setter gpcc_r1 ''rate1'' env0)) = gpcc_r1
   \<and> snd (snd (rate_setter gpcc_r1 ''rate1'' env0)) = emit (LogWarning invalid_rate_msg) env0"
proof -
  have a: "re_search_rate ''r3x'' = Some ''r3''"
    by (simp add: re_search_rate_def digit19_def)
  have b: "match_here ''r3x'' = Some ''r3''"
    by (simp add: digit19_def)
  have c: "re_search_rate ''rate1'' = None"
    by (simp add: re_search_rate_def digit19_def newline_def)
  show ?thesis
    using a b c rate_setter_stores_line_match [of "''r3x''" "''r3''" gpcc_r1 env0]
      rate_setter_stores_line_match [of "''rate1''" "''r3''" gpcc_r1 env0]
    by simp
qed

text \<open>
  C3 as stated fails. The string \<^verbatim>\<open>x\nr1\<close> does not begin with \<^verbatim>\<open>r[1-9]+\<close>, yet the
  assignment stores \<^verbatim>\<open>r1\<close> and logs no warning; and after the rejected \<^verbatim>\<open>x2\<close> a
  plugin whose tag was \<^verbatim>\<open>r1\<close> still holds \<^verbatim>\<open>r1\<close>: the tag is not unset.
\<close>

theorem rate_setter_counterexample:
  "match_here (''x'' @ [newline] @ ''r1'') = None
   \<and> rate_setter (Base_init ''GPCC'' gpcc_cfg False) (''x'' @ [newline] @ ''r1'') env0
       = (None, (Base_init ''GPCC'' gpcc_cfg False)\<lparr>rate_attr := Some ''r1''\<rparr>, env0)
   \<and> match_here ''x2'' = None
   \<and> rate_attr (fst (snd (rate_setter gpcc_r1 ''x2'' env0))) = Some ''r1''"
  by (simp add: rate_setter_def re_search_rate_def digit19_def newline_def gpcc_r1_def)


subsection \<open>The rate tag before any assignment\<close>

text \<open>
  C10. On a plugin as \<^verbatim>\<open>__init__\<close> leaves it the getter raises \<^verbatim>\<open>AttributeError\<close>, and
  so does \<^verbatim>\<open>run_dataset\<close> at its first statement, before it logs or touches anything;
  an assignment that is rejected does not change this.
\<close>

theorem fresh_plugin_rate_raises:
  "rate (Base_init cls cfg g) = Inl (AttributeError ''_rate'')
   \<and> run_dataset ext (Base_init cls cfg g) ds_name exp_dir ds_cfg_file s
       = (Some (AttributeError ''_rate''), s)
   \<and> (re_search_rate r = None \<longrightarrow>
        rate (fst (snd (rate_setter (Base_init cls cfg g) r e))) = Inl (AttributeError ''_rate''))"
  by (simp add: rate_def Base_init_def run_dataset_def rate_setter_def)

theorem fresh_plugin_rate_raises_witness:
  "rate (Base_init ''GPCC'' gpcc_cfg False) = Inl (AttributeError ''_rate'')
   \<and> run_dataset (demo_ext (demo_os [])) (Base_init ''GPCC'' gpcc_cfg False) ''demo'' (Str ''/exp'')
        (Str ''cfgs/datasets.yml'') state0
       = (Some (AttributeError ''_rate''), state0)
   \<and> re_search_rate ''x2'' = None
   \<and> rate (fst (snd (rate_setter (Base_init ''GPCC'' gpcc_cfg False) ''x2'' env0)))
       = Inl (AttributeError ''_rate'')"
proof -
  have a: "re_search_rate ''x2'' = None"
    by (simp add: re_search_rate_def newline_def)
  show ?thesis
    using a fresh_plugin_rate_raises [of "''GPCC''" gpcc_cfg False "demo_ext (demo_os [])" "''demo''"
        "Str ''/exp''" "Str ''cfgs/datasets.yml''" state0 "''x2''" env0]
    by simp
qed

subsection \<open>The override of \<^verbatim>\<open>run\<close> in PCGCv1\<close>

lemma set_filepath_names:
  "getattr_PCGCv1 self ''_Base__set_filepath'' = None
   \<and> getattr_PCGCv1 self ''_set_filepath'' = Some (AttributeError ''_set_filepath'')
   \<and> getattr_PCGCv1 self ''_run_command'' = Some (AttributeError ''_run_command'')"
  by (simp add: getattr_PCGCv1_def instance_dict_def PCGCv1_dict_def Base_dict_def mangle_def)

text \<open>
  C9. Whatever the arguments, the state and the instance, \<^verbatim>\<open>PCGCv1.run\<close> assigns the two
  attributes and raises \<^verbatim>\<open>AttributeError\<close> at \<^verbatim>\<open>self._set_filepath\<close>: the base class
  defines that method under the mangled name \<^verbatim>\<open>_Base__set_filepath\<close> only. No call
  is made and the environment (file system, console) is as before.
\<close>

theorem PCGCv1_run_raises:
  "PCGCv1_run bound_set_filepath bound_run_command evaluate self pcfile src_dir nor_dir exp_dir
     scale color resolution gpu_queue s
   = ((Some (AttributeError ''_set_filepath''),
       self\<lparr>pc_scale_attr := Some scale, color_attr := Some (if color then 1 else 0)\<rparr>), s)"
  by (simp add: PCGCv1_run_def set_filepath_names)

theorem PCGCv1_run_raises_witness:
  "PCGCv1_run (\<lambda>self a b c d. lift (set_filepath self a b c d))
     (\<lambda>self cmd t q s. (Inr (True, 1), s)) demo_report gpcc_r1 (Str ''cube.ply'')
     (Str ''/data/src'') (Str ''/data/nor'') (Str ''/exp/r1'') 1 False None (None :: nat option) state0
   = ((Some (AttributeError ''_set_filepath''),
       gpcc_r1\<lparr>pc_scale_attr := Some 1, color_attr := Some 0\<rparr>), state0)"
  using PCGCv1_run_raises [of "\<lambda>self a b c d. lift (set_filepath self a b c d)"
      "\<lambda>self cmd t q s. (Inr (True, 1), s)" demo_report gpcc_r1 "Str ''cube.ply''"
      "Str ''/data/src''" "Str ''/data/nor''" "Str ''/exp/r1''" 1 False None "None :: nat option" state0]
  by simp

subsection \<open>The dispatcher and the GPU slots\<close>



subsection \<open>The command executor\<close>

text \<open>
  What \<^verbatim>\<open>execute_cmd\<close> does, case by case. When \<^verbatim>\<open>subprocess.run\<close> returns: exit code
  zero gives \<^verbatim>\<open>True\<close> with nothing logged; any other exit code logs the command line
  first, whatever the streams hold, and then prints the two streams and returns
  \<^verbatim>\<open>False\<close>, unless a stream is not well-formed UTF-8, in which case the decoding
  raises after the log (and after the first print, if it is the second stream).
  When \<^verbatim>\<open>subprocess.run\<close> raises, so does \<^verbatim>\<open>execute_cmd\<close>. A boolean that is returned
  says whether the exit code was zero.
\<close>

lemma execute_cmd_cases:
  "(run cmd shell cwd e = (Inr ret, e1) \<and> returncode ret = 0 \<longrightarrow>
      execute_cmd run cmd shell cwd e = (Inr True, e1))
   \<and> (run cmd shell cwd e = (Inr ret, e1) \<and> returncode ret \<noteq> 0 \<longrightarrow>
      (\<exists>rest. console (snd (execute_cmd run cmd shell cwd e))
         = console e1
           @ LogInfo (''The stdout and stderr of executed command: '' @ cmd_line cmd) # rest))
   \<and> (run cmd shell cwd e = (Inr ret, e1) \<and> returncode ret \<noteq> 0
        \<and> utf8_valid (map of_char (stdout ret)) \<and> utf8_valid (map of_char (stderr ret)) \<longrightarrow>
      execute_cmd run cmd shell cwd e
        = (Inr False,
           emit (Print (newline # '' '' @ stderr ret))
             (emit (Print (newline # '' '' @ stdout ret))
               (emit (LogInfo (''The stdout and stderr of executed command: '' @ cmd_line cmd)) e1))))
   \<and> (run cmd shell cwd e = (Inr ret, e1) \<and> returncode ret \<noteq> 0
        \<and> \<not> utf8_valid (map of_char (stdout ret)) \<longrightarrow>
      execute_cmd run cmd shell cwd e
        = (Inl UnicodeDecodeError,
           emit (LogInfo (''The stdout and stderr of executed command: '' @ cmd_line cmd)) e1))
   \<and> (run cmd shell cwd e = (Inr ret, e1) \<and> returncode ret \<noteq> 0
        \<and> utf8_valid (map of_char (stdout ret)) \<and> \<not> utf8_valid (map of_char (stderr ret)) \<longrightarrow>
      execute_cmd run cmd shell cwd e
        = (Inl UnicodeDecodeError,
           emit (Print (newline # '' '' @ stdout ret))
             (emit (LogInfo (''The stdout and stderr of executed command: '' @ cmd_line cmd)) e1)))
   \<and> (execute_cmd run cmd shell cwd e = (Inr b, e') \<longrightarrow>
        (\<exists>ret. fst (run cmd shell cwd e) = Inr ret \<and> (b \<longleftrightarrow> returncode ret = 0)))
   \<and> (run cmd shell cwd e = (Inl x, e1) \<longrightarrow> execute_cmd run cmd shell cwd e = (Inl x, e1))"
  by (auto simp: execute_cmd_def bytes_decode_def emit_def Let_def
      split: prod.splits sum.splits if_splits)

text \<open>
  C5. The claim, and the docstring of \<^verbatim>\<open>execute_cmd\<close> (\<^verbatim>\<open>True\<close> if successful, \<^verbatim>\<open>False\<close>
  otherwise), promise a boolean for every command. The code breaks the promise: the
  call of \<^verbatim>\<open>sp.run\<close> stands before the \<^verbatim>\<open>try\<close>, so for a program that is not installed
  the \<^verbatim>\<open>FileNotFoundError\<close> of \<^verbatim>\<open>sp.run\<close> reaches the caller, and nothing is logged.
\<close>

theorem execute_cmd_raises_on_missing_program:
  "picky_os [''tmc3''] False None env0 = (Inl (FileNotFoundError ''tmc3''), env0)
   \<and> execute_cmd picky_os [''tmc3''] False None env0 = (Inl (FileNotFoundError ''tmc3''), env0)"
  by (simp add: execute_cmd_def picky_os_def demo_os_def)

subsection \<open>Creating directories\<close>

lemma lookup_append_old:
  "lookup_node f q = Some n \<Longrightarrow> lookup_node (f @ new) q = Some n"
  by (cases q) (auto simp: map_add_def split: if_splits)

lemma lookup_append_file:
  assumes "\<forall>x\<in>set new. snd x = Dir" and "lookup_node (f @ new) q = Some (File c)"
  shows "lookup_node f q = Some (File c)"
proof (cases q)
  case (Path r ps)
  show ?thesis
  proof (cases "map_of f q")
    case None
    with assms(2) Path have "map_of new q = Some (File c)"
      by (auto simp: map_add_def split: if_splits)
    then have "(q, File c) \<in> set new" by (rule map_of_SomeD)
    with assms(1) show ?thesis by auto
  next
    case (Some n)
    with assms(2) Path show ?thesis
      by (auto simp: map_add_def split: if_splits)
  qed
qed

lemma os_mkdir_Inr: "os_mkdir p f = Inr f' \<Longrightarrow> f' = f @ [(p, Dir)]"
  by (auto simp: os_mkdir_def split: option.splits node.splits)

lemma mkdir_parents_rev_ok:
  assumes "\<forall>k c. lookup_node f (Path r (rev (drop k rps))) \<noteq> Some (File c)"
  shows "\<exists>new. mkdir_parents_rev r rps f = (None, f @ new) \<and> (\<forall>x\<in>set new. snd x = Dir)
           \<and> is_dir (f @ new) (Path r (rev rps))"
  using assms
proof (induction rps arbitrary: f)
  case Nil
  show ?case
    by (intro exI [of _ "[]"]) (simp add: os_mkdir_def is_dir_def)
next
  case (Cons x rest)
  define p where "p = Path r (rev (x # rest))"
  define par where "par = Path r (rev rest)"
  have par: "parent p = par" by (simp add: p_def par_def)
  have nofile_p: "\<And>c. lookup_node f p \<noteq> Some (File c)"
    using Cons.prems [rule_format, of 0] by (simp add: p_def)
  have nofile_par: "\<And>c. lookup_node f par \<noteq> Some (File c)"
    using Cons.prems [rule_format, of 1] by (simp add: par_def)
  have rest_hyp: "\<forall>k c. lookup_node f (Path r (rev (drop k rest))) \<noteq> Some (File c)"
  proof (intro allI)
    fix k c
    show "lookup_node f (Path r (rev (drop k rest))) \<noteq> Some (File c)"
      using Cons.prems [rule_format, of "Suc k" c] by simp
  qed
  have pmap: "\<And>g. lookup_node g p = map_of g p" by (simp add: p_def)
  have step: "mkdir_parents_rev r (x # rest) f =
     (case os_mkdir p f of
        Inr f' \<Rightarrow> (None, f')
      | Inl (FileNotFoundError x') \<Rightarrow>
          (case mkdir_parents_rev r rest f of
             (Some e, f') \<Rightarrow> (Some e, f')
           | (None, f') \<Rightarrow> mkdir_exist_ok p f')
      | Inl e \<Rightarrow> if is_dir f p then (None, f) else (Some e, f))"
    unfolding p_def by (rule mkdir_parents_rev.simps)
  show ?case
  proof (cases "lookup_node f par")
    case None
    then have fnf: "os_mkdir p f = Inl (FileNotFoundError (str_path p))"
      unfolding os_mkdir_def par by simp
    from Cons.IH [OF rest_hyp] obtain new1 where
      rec: "mkdir_parents_rev r rest f = (None, f @ new1)" and
      dirs: "\<forall>x\<in>set new1. snd x = Dir" and
      isd: "is_dir (f @ new1) par" unfolding par_def by blast
    have nofile1: "\<And>c. lookup_node (f @ new1) p \<noteq> Some (File c)"
      using lookup_append_file [OF dirs] nofile_p by blast
    have isd': "lookup_node (f @ new1) par = Some Dir"
      using isd by (simp only: is_dir_def)
    show ?thesis
    proof (cases "lookup_node (f @ new1) p")
      case None
      have mk: "os_mkdir p (f @ new1) = Inr ((f @ new1) @ [(p, Dir)])"
        unfolding os_mkdir_def par isd' None by simp
      have res: "mkdir_parents_rev r (x # rest) f = (None, f @ (new1 @ [(p, Dir)]))"
        by (subst step) (simp add: fnf rec mkdir_exist_ok_def mk)
      have "map_of (f @ new1) p = None" using None pmap by simp
      then have "map_of (f @ (new1 @ [(p, Dir)])) p = Some Dir"
        by (auto simp: map_add_def split: option.splits)
      then have "is_dir (f @ (new1 @ [(p, Dir)])) p"
        unfolding is_dir_def pmap .
      moreover have "\<forall>x\<in>set (new1 @ [(p, Dir)]). snd x = Dir"
        using dirs by simp
      ultimately show ?thesis
        using res unfolding p_def by (intro exI [of _ "new1 @ [(Path r (rev (x # rest)), Dir)]"]) simp
    next
      case (Some n)
      with nofile1 have n: "n = Dir" by (cases n) auto
      have mk: "os_mkdir p (f @ new1) = Inl (FileExistsError (str_path p))"
        unfolding os_mkdir_def par isd' Some by simp
      have isp: "is_dir (f @ new1) p" using Some n by (simp only: is_dir_def)
      have res: "mkdir_parents_rev r (x # rest) f = (None, f @ new1)"
        using isp by (subst step) (simp add: fnf rec mkdir_exist_ok_def mk)
      show ?thesis using res dirs isp unfolding p_def by (intro exI [of _ new1]) simp
    qed
  next
    case (Some m)
    with nofile_par have m: "m = Dir" by (cases m) auto
    note parDir = Some [unfolded m]
    show ?thesis
    proof (cases "lookup_node f p")
      case None
      have mk: "os_mkdir p f = Inr (f @ [(p, Dir)])"
        unfolding os_mkdir_def par parDir None by simp
      have res: "mkdir_parents_rev r (x # rest) f = (None, f @ [(p, Dir)])"
        by (subst step) (simp add: mk)
      have "map_of f p = None" using None pmap by simp
      then have "map_of (f @ [(p, Dir)]) p = Some Dir"
        by (auto simp: map_add_def split: option.splits)
      then have "is_dir (f @ [(p, Dir)]) p"
        unfolding is_dir_def pmap .
      then show ?thesis
        using res unfolding p_def by (intro exI [of _ "[(Path r (rev (x # rest)), Dir)]"]) simp
    next
      case (Some n)
      with nofile_p have n: "n = Dir" by (cases n) auto
      have mk: "os_mkdir p f = Inl (FileExistsError (str_path p))"
        unfolding os_mkdir_def par parDir Some by simp
      have isp: "is_dir f p" using Some n by (simp only: is_dir_def)
      have res: "mkdir_parents_rev r (x # rest) f = (None, f @ [])"
        using isp by (subst step) (simp add: mk)
      show ?thesis using res isp unfolding p_def by (intro exI [of _ "[]"]) simp
    qed
  qed
qed

lemma mkdir_parents_ok:
  assumes "\<forall>k c. lookup_node f (Path r (take k ps)) \<noteq> Some (File c)"
  shows "\<exists>new. mkdir_parents (Path r ps) f = (None, f @ new) \<and> (\<forall>x\<in>set new. snd x = Dir)
           \<and> is_dir (f @ new) (Path r ps)"
proof -
  have "\<forall>k c. lookup_node f (Path r (rev (drop k (rev ps)))) \<noteq> Some (File c)"
  proof (intro allI)
    fix k c
    have "rev (drop k (rev ps)) = take (length ps - k) ps"
      by (simp add: rev_drop)
    then show "lookup_node f (Path r (rev (drop k (rev ps)))) \<noteq> Some (File c)"
      using assms [rule_format, of "length ps - k" c] by (simp del: lookup_node.simps)
  qed
  from mkdir_parents_rev_ok [OF this] show ?thesis by simp
qed

subsection \<open>The single-file pipeline\<close>

lemma set_filepath_bad:
  "set_filepath gpcc_running (Str ''bad.ply'') (Str ''/data/src'') (Str ''/data/nor'')
     (Str ''/exp/r1'') env0 = (Inr bad_paths, env0\<lparr>fs := exp_tree\<rparr>)"
  by (simp add: set_filepath_def gpcc_running_def gpcc_r1_def Base_init_def gpcc_cfg_def
      cfg_scalar_def Path_of_def parse_parts_def joinpath_def splitroot_def components_def
      sep_def suffix_of_name_def rfind_dot_def os_mkdir_def mkdir_exist_ok_def is_dir_def
      env0_def bad_paths_def exp_tree_def)

lemma set_filepath_cube:
  "set_filepath gpcc_running (Str ''cube.ply'') (Str ''/data/src'') (Str ''/data/nor'')
     (Str ''/exp/r1'') env0 = (Inr cube_paths, env0\<lparr>fs := exp_tree\<rparr>)"
  by (simp add: set_filepath_def gpcc_running_def gpcc_r1_def Base_init_def gpcc_cfg_def
      cfg_scalar_def Path_of_def parse_parts_def joinpath_def splitroot_def components_def
      sep_def suffix_of_name_def rfind_dot_def os_mkdir_def mkdir_exist_ok_def is_dir_def
      env0_def cube_paths_def exp_tree_def)

lemma encode_bad:
  "GPCC_encode picky_os gpcc_running ''/data/src/bad.ply'' ''/exp/r1/bin/bad.bin''
     (env0\<lparr>fs := exp_tree\<rparr>)
   = (Some AssertionError,
      \<lparr>fs = exp_tree, console = failed_console bad_enc_cmd, clock = 1\<rparr>)"
  by (simp add: GPCC_encode_def gpcc_running_def gpcc_r1_def Base_init_def gpcc_cfg_def
      cfg_scalar_def cfg_nested_def rate_def execute_cmd_def picky_os_def demo_os_def
      demo_enc_def write_all_def emit_def bytes_decode_def cmd_line_def env0_def
      failed_console_def bad_enc_cmd_def)

lemma encode_cube:
  "GPCC_encode (demo_os ((''tmc3enc'', demo_enc) # ps)) gpcc_running ''/data/src/cube.ply''
     ''/exp/r1/bin/cube.bin'' (env0\<lparr>fs := exp_tree\<rparr>)
   = (None, \<lparr>fs = exp_tree @ cube_streams, console = [], clock = 1\<rparr>)"
  by (simp add: GPCC_encode_def gpcc_running_def gpcc_r1_def Base_init_def gpcc_cfg_def
      cfg_scalar_def cfg_nested_def rate_def execute_cmd_def demo_os_def
      demo_enc_def side_file_def write_all_def env0_def exp_tree_def cube_streams_def
      Path_of_def parse_parts_def splitroot_def components_def sep_def suffix_of_name_def
      rfind_dot_def)

lemma decode_cube_broken:
  "GPCC_decode broken_dec_os gpcc_running ''/exp/r1/bin/cube.bin'' ''/exp/r1/dec/cube.ply''
     \<lparr>fs = exp_tree @ cube_streams, console = [], clock = 1\<rparr>
   = (Some AssertionError,
      \<lparr>fs = exp_tree @ cube_streams, console = failed_console cube_dec_cmd, clock = 2\<rparr>)"
  by (simp add: GPCC_decode_def gpcc_running_def gpcc_r1_def Base_init_def gpcc_cfg_def
      cfg_scalar_def execute_cmd_def broken_dec_os_def demo_os_def
      write_all_def emit_def bytes_decode_def cmd_line_def
      failed_console_def cube_dec_cmd_def)

lemma decode_cube:
  "GPCC_decode picky_os gpcc_running ''/exp/r1/bin/cube.bin'' ''/exp/r1/dec/cube.ply''
     \<lparr>fs = exp_tree @ cube_streams, console = [], clock = 1\<rparr>
   = (None,
      \<lparr>fs = exp_tree @ cube_streams
              @ [(Path ''/'' [''exp'', ''r1'', ''dec'', ''cube.ply''], File ''points'')],
       console = [], clock = 2\<rparr>)"
  by (simp add: GPCC_decode_def gpcc_running_def gpcc_r1_def Base_init_def gpcc_cfg_def
      cfg_scalar_def execute_cmd_def picky_os_def demo_os_def demo_dec_def
      write_all_def exp_tree_def cube_streams_def
      Path_of_def parse_parts_def splitroot_def components_def sep_def)

lemma lift_calls: "lift f s = (r, s1) \<Longrightarrow> calls s1 = calls s"
  by (auto simp: lift_def split: prod.splits)

text \<open>
  C2. When the paths are resolved and \<^verbatim>\<open>encode\<close> raises, \<^verbatim>\<open>Base.run\<close> ends with that
  exception: the one call it has made is the encode, so \<^verbatim>\<open>decode\<close> is never invoked
  and no log is written, and the environment is as \<^verbatim>\<open>encode\<close> left it.
\<close>

theorem run_aborts_on_encode_failure:
  "lift (set_filepath (self\<lparr>color_attr := Some color, resolution_attr := Some resolution\<rparr>)
           pcfile src_dir nor_dir exp_dir) s
     = (Inr (in_pcfile, nor_pcfile, bin_file, out_pcfile, evl_log), s1)
   \<and> encode cdc (self\<lparr>color_attr := Some color, resolution_attr := Some resolution\<rparr>)
        (str_path in_pcfile) (str_path bin_file) (world s1) = (Some x, w2)
   \<longrightarrow> Base_run cdc evaluate self pcfile src_dir nor_dir exp_dir color resolution s
       = ((Some x, self\<lparr>color_attr := Some color, resolution_attr := Some resolution\<rparr>),
          \<lparr>world = w2,
           calls = calls s @ [EncodeCall (str_path in_pcfile) (str_path bin_file)]\<rparr>)"
proof (intro impI, elim conjE)
  let ?self = "self\<lparr>color_attr := Some color, resolution_attr := Some resolution\<rparr>"
  assume sf: "lift (set_filepath ?self pcfile src_dir nor_dir exp_dir) s
     = (Inr (in_pcfile, nor_pcfile, bin_file, out_pcfile, evl_log), s1)"
  assume enc: "encode cdc ?self (str_path in_pcfile) (str_path bin_file) (world s1) = (Some x, w2)"
  have c: "calls s1 = calls s" using sf by (rule lift_calls)
  have t: "timer (encode_step cdc ?self (str_path in_pcfile) (str_path bin_file)) s1
     = (Inl x, \<lparr>world = w2,
           calls = calls s @ [EncodeCall (str_path in_pcfile) (str_path bin_file)]\<rparr>)"
    by (simp add: timer_def encode_step_def lift_def record_call_def enc c)
  show "Base_run cdc evaluate self pcfile src_dir nor_dir exp_dir color resolution s
       = ((Some x, ?self),
          \<lparr>world = w2,
           calls = calls s @ [EncodeCall (str_path in_pcfile) (str_path bin_file)]\<rparr>)"
    unfolding Base_run_def Let_def sf by (simp add: t)
qed

theorem run_aborts_on_encode_failure_witness:
  "Base_run (GPCC picky_os) demo_report gpcc_r1 (Str ''bad.ply'') (Str ''/data/src'')
     (Str ''/data/nor'') (Str ''/exp/r1'') 0 None state0
   = ((Some AssertionError, gpcc_running),
      \<lparr>world = \<lparr>fs = exp_tree, console = failed_console bad_enc_cmd, clock = 1\<rparr>,
       calls = [EncodeCall ''/data/src/bad.ply'' ''/exp/r1/bin/bad.bin'']\<rparr>)"
proof -
  have a: "lift (set_filepath (gpcc_r1\<lparr>color_attr := Some 0, resolution_attr := Some None\<rparr>)
        (Str ''bad.ply'') (Str ''/data/src'') (Str ''/data/nor'') (Str ''/exp/r1'')) state0
      = (Inr bad_paths, \<lparr>world = env0\<lparr>fs := exp_tree\<rparr>, calls = []\<rparr>)"
    using set_filepath_bad by (simp add: lift_def state0_def gpcc_running_def)
  have b: "encode (GPCC picky_os) (gpcc_r1\<lparr>color_attr := Some 0, resolution_attr := Some None\<rparr>)
        ''/data/src/bad.ply'' ''/exp/r1/bin/bad.bin'' (env0\<lparr>fs := exp_tree\<rparr>)
      = (Some AssertionError, \<lparr>fs = exp_tree, console = failed_console bad_enc_cmd, clock = 1\<rparr>)"
    using encode_bad by (simp add: GPCC_def gpcc_running_def)
  show ?thesis
    using a b
      run_aborts_on_encode_failure [where self = gpcc_r1 and color = 0 and resolution = None
        and pcfile = "Str ''bad.ply''" and src_dir = "Str ''/data/src''"
        and nor_dir = "Str ''/data/nor''" and exp_dir = "Str ''/exp/r1''" and s = state0
        and in_pcfile = "Path ''/'' [''data'', ''src'', ''bad.ply'']"
        and nor_pcfile = "Path ''/'' [''data'', ''nor'', ''bad.ply'']"
        and bin_file = "Path ''/'' [''exp'', ''r1'', ''bin'', ''bad.bin'']"
        and out_pcfile = "Path ''/'' [''exp'', ''r1'', ''dec'', ''bad.ply'']"
        and evl_log = "Path ''/'' [''exp'', ''r1'', ''evl'', ''bad.log'']"
        and ?s1.0 = "\<lparr>world = env0\<lparr>fs := exp_tree\<rparr>, calls = []\<rparr>"
        and cdc = "GPCC picky_os" and x = AssertionError
        and ?w2.0 = "\<lparr>fs = exp_tree, console = failed_console bad_enc_cmd, clock = 1\<rparr>"
        and evaluate = demo_report]
    by (simp add: bad_paths_def sep_def state0_def gpcc_running_def)
qed

text \<open>
  C6. When the paths are resolved, \<^verbatim>\<open>encode\<close> returns and \<^verbatim>\<open>decode\<close> raises,
  \<^verbatim>\<open>Base.run\<close> ends with that exception having made two calls, the encode and one
  decode: the metrics are never evaluated and no log is written.
\<close>

theorem run_aborts_on_decode_failure:
  "lift (set_filepath (self\<lparr>color_attr := Some color, resolution_attr := Some resolution\<rparr>)
           pcfile src_dir nor_dir exp_dir) s
     = (Inr (in_pcfile, nor_pcfile, bin_file, out_pcfile, evl_log), s1)
   \<and> encode cdc (self\<lparr>color_attr := Some color, resolution_attr := Some resolution\<rparr>)
        (str_path in_pcfile) (str_path bin_file) (world s1) = (None, w2)
   \<and> decode cdc (self\<lparr>color_attr := Some color, resolution_attr := Some resolution\<rparr>)
        (str_path bin_file) (str_path out_pcfile) w2 = (Some x, w3)
   \<longrightarrow> Base_run cdc evaluate self pcfile src_dir nor_dir exp_dir color resolution s
       = ((Some x, self\<lparr>color_attr := Some color, resolution_attr := Some resolution\<rparr>),
          \<lparr>world = w3,
           calls = calls s @ [EncodeCall (str_path in_pcfile) (str_path bin_file),
                              DecodeCall (str_path bin_file) (str_path out_pcfile)]\<rparr>)"
proof (intro impI, elim conjE)
  let ?self = "self\<lparr>color_attr := Some color, resolution_attr := Some resolution\<rparr>"
  let ?enc = "EncodeCall (str_path in_pcfile) (str_path bin_file)"
  let ?dec = "DecodeCall (str_path bin_file) (str_path out_pcfile)"
  assume sf: "lift (set_filepath ?self pcfile src_dir nor_dir exp_dir) s
     = (Inr (in_pcfile, nor_pcfile, bin_file, out_pcfile, evl_log), s1)"
  assume enc: "encode cdc ?self (str_path in_pcfile) (str_path bin_file) (world s1) = (None, w2)"
  assume dec: "decode cdc ?self (str_path bin_file) (str_path out_pcfile) w2 = (Some x, w3)"
  have c: "calls s1 = calls s" using sf by (rule lift_calls)
  have t1: "timer (encode_step cdc ?self (str_path in_pcfile) (str_path bin_file)) s1
     = (Inr (clock w2 - clock (world s1)), \<lparr>world = w2, calls = calls s @ [?enc]\<rparr>)"
    by (simp add: timer_def encode_step_def lift_def record_call_def enc c)
  have t2: "timer (decode_step cdc ?self (str_path bin_file) (str_path out_pcfile))
       \<lparr>world = w2, calls = calls s @ [?enc]\<rparr>
     = (Inl x, \<lparr>world = w3, calls = calls s @ [?enc, ?dec]\<rparr>)"
    by (simp add: timer_def decode_step_def lift_def record_call_def dec)
  show "Base_run cdc evaluate self pcfile src_dir nor_dir exp_dir color resolution s
       = ((Some x, ?self), \<lparr>world = w3, calls = calls s @ [?enc, ?dec]\<rparr>)"
    unfolding Base_run_def Let_def sf by (simp add: t1 t2)
qed

theorem run_aborts_on_decode_failure_witness:
  "Base_run (GPCC broken_dec_os) demo_report gpcc_r1 (Str ''cube.ply'') (Str ''/data/src'')
     (Str ''/data/nor'') (Str ''/exp/r1'') 0 None state0
   = ((Some AssertionError, gpcc_running),
      \<lparr>world = \<lparr>fs = exp_tree @ cube_streams, console = failed_console cube_dec_cmd, clock = 2\<rparr>,
       calls = [EncodeCall ''/data/src/cube.ply'' ''/exp/r1/bin/cube.bin'',
                DecodeCall ''/exp/r1/bin/cube.bin'' ''/exp/r1/dec/cube.ply'']\<rparr>)"
proof -
  have a: "lift (set_filepath (gpcc_r1\<lparr>color_attr := Some 0, resolution_attr := Some None\<rparr>)
        (Str ''cube.ply'') (Str ''/data/src'') (Str ''/data/nor'') (Str ''/exp/r1'')) state0
      = (Inr cube_paths, \<lparr>world = env0\<lparr>fs := exp_tree\<rparr>, calls = []\<rparr>)"
    using set_filepath_cube by (simp add: lift_def state0_def gpcc_running_def)
  have b: "encode (GPCC broken_dec_os) (gpcc_r1\<lparr>color_attr := Some 0, resolution_attr := Some None\<rparr>)
        ''/data/src/cube.ply'' ''/exp/r1/bin/cube.bin'' (env0\<lparr>fs := exp_tree\<rparr>)
      = (None, \<lparr>fs = exp_tree @ cube_streams, console = [], clock = 1\<rparr>)"
    using encode_cube [of "[(''tmc3dec'', \<lambda>args. (1, []))]"]
    by (simp add: GPCC_def gpcc_running_def broken_dec_os_def)
  have c: "decode (GPCC broken_dec_os) (gpcc_r1\<lparr>color_attr := Some 0, resolution_attr := Some None\<rparr>)
        ''/exp/r1/bin/cube.bin'' ''/exp/r1/dec/cube.ply''
        \<lparr>fs = exp_tree @ cube_streams, console = [], clock = 1\<rparr>
      = (Some AssertionError,
         \<lparr>fs = exp_tree @ cube_streams, console = failed_console cube_dec_cmd, clock = 2\<rparr>)"
    using decode_cube_broken by (simp add: GPCC_def gpcc_running_def)
  show ?thesis
    using a b c
      run_aborts_on_decode_failure [where self = gpcc_r1 and color = 0 and resolution = None
        and pcfile = "Str ''cube.ply''" and src_dir = "Str ''/data/src''"
        and nor_dir = "Str ''/data/nor''" and exp_dir = "Str ''/exp/r1''" and s = state0
        and in_pcfile = "Path ''/'' [''data'', ''src'', ''cube.ply'']"
        and nor_pcfile = "Path ''/'' [''data'', ''nor'', ''cube.ply'']"
        and bin_file = "Path ''/'' [''exp'', ''r1'', ''bin'', ''cube.bin'']"
        and out_pcfile = "Path ''/'' [''exp'', ''r1'', ''dec'', ''cube.ply'']"
        and evl_log = "Path ''/'' [''exp'', ''r1'', ''evl'', ''cube.log'']"
        and ?s1.0 = "\<lparr>world = env0\<lparr>fs := exp_tree\<rparr>, calls = []\<rparr>"
        and cdc = "GPCC broken_dec_os" and x = AssertionError
        and ?w2.0 = "\<lparr>fs = exp_tree @ cube_streams, console = [], clock = 1\<rparr>"
        and ?w3.0 = "\<lparr>fs = exp_tree @ cube_streams, console = failed_console cube_dec_cmd,
                       clock = 2\<rparr>"
        and evaluate = demo_report]
    by (simp add: cube_paths_def sep_def state0_def gpcc_running_def)
qed

subsection \<open>The compressed artifact set\<close>

lemma glob_match_star_empty: "glob_match ps s \<Longrightarrow> glob_match (CHR ''*'' # ps) s"
  by (cases s) simp_all

lemma glob_match_star: "glob_match ''*'' s"
  by (induction s) simp_all

lemma glob_match_prefix: "prefix st n \<Longrightarrow> glob_match (st @ ''*'') n"
proof (induction st arbitrary: n)
  case Nil
  show ?case using glob_match_star by simp
next
  case (Cons c st)
  from Cons.prems obtain n' where n: "n = c # n'" and p: "prefix st n'"
    by (cases n) auto
  from Cons.IH [OF p] have ih: "glob_match (st @ ''*'') n'" .
  show ?case
  proof (cases "c = CHR ''*''")
    case True
    from ih have "glob_match (CHR ''*'' # st @ ''*'') n'"
      by (rule glob_match_star_empty)
    then show ?thesis using n True by simp
  next
    case False
    then show ?thesis using n ih by simp
  qed
qed

lemma glob_file_stem:
  assumes "lookup_node f p = Some (File c)" and "parent p = d" and "prefix st (name p)"
  shows "p \<in> set (glob_file f d (st @ ''*'') True)"
proof -
  obtain r ps where p: "p = Path r ps" by (cases p)
  from assms(1) p have ne: "ps \<noteq> []" and m: "map_of f p = Some (File c)"
    by (auto split: if_splits)
  from m have mem: "(p, File c) \<in> set f" by (rule map_of_SomeD)
  have neq: "p \<noteq> d"
  proof
    assume "p = d"
    with assms(2) p have "butlast ps = ps" by simp
    then have "length (butlast ps) = length ps" by simp
    then have "length ps - 1 = length ps" by (simp only: length_butlast)
    moreover have "0 < length ps" using ne by simp
    ultimately show False by arith
  qed
  have gm: "glob_match (st @ ''*'') (name p)" using assms(3) by (rule glob_match_prefix)
  have "(p, File c) \<in> set (filter (\<lambda>(p, n). is_file n \<and> parent p = d \<and> p \<noteq> d
            \<and> glob_match (st @ ''*'') (name p)) f)"
    using mem neq gm assms(2) by simp
  then show ?thesis
    unfolding glob_file_def set_map
    by (intro image_eqI [where x = "(p, File c)"]) simp_all
qed

text \<open>
  C7. When the paths are resolved and \<^verbatim>\<open>encode\<close> and \<^verbatim>\<open>decode\<close> return, \<^verbatim>\<open>Base.run\<close> is
  what the Metrics Bridge makes of one argument record, whatever the bridge is: the
  bridge is called on that record in the environment \<^verbatim>\<open>decode\<close> left, its report (or
  its exception) is what \<^verbatim>\<open>run\<close> writes to the log (or raises). The file list of that
  record is the glob of the artifact's stem in the artifact's directory, and it holds
  every file that is then in that directory and whose name begins with the stem.
\<close>

theorem metrics_receive_artifact_set:
  "lift (set_filepath (self\<lparr>color_attr := Some color, resolution_attr := Some resolution\<rparr>)
           pcfile src_dir nor_dir exp_dir) s
     = (Inr (in_pcfile, nor_pcfile, bin_file, out_pcfile, evl_log), s1)
   \<and> encode cdc (self\<lparr>color_attr := Some color, resolution_attr := Some resolution\<rparr>)
        (str_path in_pcfile) (str_path bin_file) (world s1) = (None, w2)
   \<and> decode cdc (self\<lparr>color_attr := Some color, resolution_attr := Some resolution\<rparr>)
        (str_path bin_file) (str_path out_pcfile) w2 = (None, w3)
   \<longrightarrow>
   (let self1 = self\<lparr>color_attr := Some color, resolution_attr := Some resolution\<rparr>;
        args = \<lparr>ref_pc = nor_pcfile, target_pc = out_pcfile, m_color = color,
                m_resolution = resolution, enc_t = clock w2 - clock (world s1),
                dec_t = clock w3 - clock w2,
                m_bin_files = glob_file (fs w3) (parent bin_file) (stem bin_file @ ''*'') True\<rparr>;
        made = calls s @ [EncodeCall (str_path in_pcfile) (str_path bin_file),
                          DecodeCall (str_path bin_file) (str_path out_pcfile),
                          EvaluateCall args]
    in Base_run cdc evaluate self pcfile src_dir nor_dir exp_dir color resolution s
         = (case evaluate args w3 of
              (Inl x, w4) \<Rightarrow> ((Some x, self1), \<lparr>world = w4, calls = made\<rparr>)
            | (Inr ret, w4) \<Rightarrow>
                (case write_file evl_log ret (fs w4) of
                   Inl x \<Rightarrow> ((Some x, self1), \<lparr>world = w4, calls = made\<rparr>)
                 | Inr f' \<Rightarrow>
                     ((None, self1),
                      \<lparr>world = w4\<lparr>fs := f'\<rparr>, calls = made @ [WriteLog evl_log ret]\<rparr>)))
       \<and> (\<forall>p c. lookup_node (fs w3) p = Some (File c) \<and> parent p = parent bin_file
                  \<and> prefix (stem bin_file) (name p)
              \<longrightarrow> p \<in> set (m_bin_files args)))"
proof (intro impI, elim conjE)
  let ?self = "self\<lparr>color_attr := Some color, resolution_attr := Some resolution\<rparr>"
  let ?enc = "EncodeCall (str_path in_pcfile) (str_path bin_file)"
  let ?dec = "DecodeCall (str_path bin_file) (str_path out_pcfile)"
  let ?args = "\<lparr>ref_pc = nor_pcfile, target_pc = out_pcfile, m_color = color,
                m_resolution = resolution, enc_t = clock w2 - clock (world s1),
                dec_t = clock w3 - clock w2,
                m_bin_files = glob_file (fs w3) (parent bin_file) (stem bin_file @ ''*'') True\<rparr>"
  assume sf: "lift (set_filepath ?self pcfile src_dir nor_dir exp_dir) s
     = (Inr (in_pcfile, nor_pcfile, bin_file, out_pcfile, evl_log), s1)"
  assume enc: "encode cdc ?self (str_path in_pcfile) (str_path bin_file) (world s1) = (None, w2)"
  assume dec: "decode cdc ?self (str_path bin_file) (str_path out_pcfile) w2 = (None, w3)"
  have c: "calls s1 = calls s" using sf by (rule lift_calls)
  have t1: "timer (encode_step cdc ?self (str_path in_pcfile) (str_path bin_file)) s1
     = (Inr (clock w2 - clock (world s1)), \<lparr>world = w2, calls = calls s @ [?enc]\<rparr>)"
    by (simp add: timer_def encode_step_def lift_def record_call_def enc c)
  have t2: "timer (decode_step cdc ?self (str_path bin_file) (str_path out_pcfile))
       \<lparr>world = w2, calls = calls s @ [?enc]\<rparr>
     = (Inr (clock w3 - clock w2), \<lparr>world = w3, calls = calls s @ [?enc, ?dec]\<rparr>)"
    by (simp add: timer_def decode_step_def lift_def record_call_def dec)
  obtain r w4 where ev: "evaluate ?args w3 = (r, w4)" by (cases "evaluate ?args w3")
  have run: "Base_run cdc evaluate self pcfile src_dir nor_dir exp_dir color resolution s
         = (case evaluate ?args w3 of
              (Inl x, w4) \<Rightarrow> ((Some x, ?self), \<lparr>world = w4, calls = calls s @ [?enc, ?dec, EvaluateCall ?args]\<rparr>)
            | (Inr ret, w4) \<Rightarrow>
                (case write_file evl_log ret (fs w4) of
                   Inl x \<Rightarrow> ((Some x, ?self), \<lparr>world = w4, calls = calls s @ [?enc, ?dec, EvaluateCall ?args]\<rparr>)
                 | Inr f' \<Rightarrow>
                     ((None, ?self),
                      \<lparr>world = w4\<lparr>fs := f'\<rparr>,
                       calls = (calls s @ [?enc, ?dec, EvaluateCall ?args]) @ [WriteLog evl_log ret]\<rparr>)))"
    unfolding Base_run_def Let_def sf
    by (cases r; cases "write_file evl_log (projr r) (fs w4)")
       (simp_all add: t1 t2 lift_def record_call_def ev)
  have glob: "\<forall>p c. lookup_node (fs w3) p = Some (File c) \<and> parent p = parent bin_file
                  \<and> prefix (stem bin_file) (name p)
              \<longrightarrow> p \<in> set (m_bin_files ?args)"
    by (auto intro: glob_file_stem)
  show "let self1 = ?self; args = ?args;
        made = calls s @ [?enc, ?dec, EvaluateCall args]
    in Base_run cdc evaluate self pcfile src_dir nor_dir exp_dir color resolution s
         = (case evaluate args w3 of
              (Inl x, w4) \<Rightarrow> ((Some x, self1), \<lparr>world = w4, calls = made\<rparr>)
            | (Inr ret, w4) \<Rightarrow>
                (case write_file evl_log ret (fs w4) of
                   Inl x \<Rightarrow> ((Some x, self1), \<lparr>world = w4, calls = made\<rparr>)
                 | Inr f' \<Rightarrow>
                     ((None, self1),
                      \<lparr>world = w4\<lparr>fs := f'\<rparr>, calls = made @ [WriteLog evl_log ret]\<rparr>)))
       \<and> (\<forall>p c. lookup_node (fs w3) p = Some (File c) \<and> parent p = parent bin_file
                  \<and> prefix (stem bin_file) (name p)
              \<longrightarrow> p \<in> set (m_bin_files args))"
    unfolding Let_def using run glob by (intro conjI)
qed

lemma stem_cube: "stem (Path ''/'' [''exp'', ''r1'', ''bin'', ''cube.bin'']) = ''cube''"
  by (simp add: stem_def stem_of_name_def rfind_dot_def)

lemma glob_cube:
  "glob_file cube_done (Path ''/'' [''exp'', ''r1'', ''bin'']) ''cube*'' True
   = [Path ''/'' [''exp'', ''r1'', ''bin'', ''cube.bin''],
      Path ''/'' [''exp'', ''r1'', ''bin'', ''cube.aux'']]"
  by (simp add: glob_file_def cube_done_def exp_tree_def cube_streams_def)

lemma report_cube: "demo_report cube_args w = (Inr cube_report, w)"
  by (simp add: demo_report_def cube_args_def cube_report_def sep_def)

lemma write_cube_log:
  "write_file cube_log r cube_done = Inr (cube_done @ [(cube_log, File r)])"
  by (simp add: write_file_def cube_log_def cube_done_def exp_tree_def cube_streams_def)

theorem metrics_receive_artifact_set_witness:
  "Base_run (GPCC picky_os) demo_report gpcc_r1 (Str ''cube.ply'') (Str ''/data/src'')
     (Str ''/data/nor'') (Str ''/exp/r1'') 0 None state0
   = ((None, gpcc_running),
      \<lparr>world = \<lparr>fs = cube_done @ [(cube_log, File cube_report)], console = [], clock = 2\<rparr>,
       calls = cube_calls\<rparr>)
   \<and> cube_report = ''files: /exp/r1/bin/cube.bin /exp/r1/bin/cube.aux''
   \<and> lookup_node cube_done (Path ''/'' [''exp'', ''r1'', ''bin'', ''cube.aux'']) = Some (File ''side'')
   \<and> prefix ''cube'' ''cube.aux'' \<and> \<not> prefix ''cube.bin'' ''cube.aux''
   \<and> Path ''/'' [''exp'', ''r1'', ''bin'', ''cube.aux''] \<in> set (m_bin_files cube_args)"
proof -
  let ?w2 = "\<lparr>fs = exp_tree @ cube_streams, console = [], clock = 1\<rparr>"
  let ?w3 = "\<lparr>fs = cube_done, console = [], clock = 2\<rparr>"
  have a: "lift (set_filepath (gpcc_r1\<lparr>color_attr := Some 0, resolution_attr := Some None\<rparr>)
        (Str ''cube.ply'') (Str ''/data/src'') (Str ''/data/nor'') (Str ''/exp/r1'')) state0
      = (Inr cube_paths, \<lparr>world = env0\<lparr>fs := exp_tree\<rparr>, calls = []\<rparr>)"
    using set_filepath_cube by (simp add: lift_def state0_def gpcc_running_def)
  have b: "encode (GPCC picky_os) (gpcc_r1\<lparr>color_attr := Some 0, resolution_attr := Some None\<rparr>)
        ''/data/src/cube.ply'' ''/exp/r1/bin/cube.bin'' (env0\<lparr>fs := exp_tree\<rparr>) = (None, ?w2)"
    using encode_cube [of "[(''tmc3dec'', demo_dec)]"]
    by (simp add: GPCC_def gpcc_running_def picky_os_def)
  have c: "decode (GPCC picky_os) (gpcc_r1\<lparr>color_attr := Some 0, resolution_attr := Some None\<rparr>)
        ''/exp/r1/bin/cube.bin'' ''/exp/r1/dec/cube.ply'' ?w2 = (None, ?w3)"
    using decode_cube by (simp add: GPCC_def gpcc_running_def cube_done_def)
  have d: "lookup_node cube_done (Path ''/'' [''exp'', ''r1'', ''bin'', ''cube.aux''])
      = Some (File ''side'')"
    by (simp add: cube_done_def exp_tree_def cube_streams_def)
  have e: "prefix ''cube'' ''cube.aux'' \<and> \<not> prefix ''cube.bin'' ''cube.aux''"
    by simp
  have hyps: "lift (set_filepath (gpcc_r1\<lparr>color_attr := Some 0, resolution_attr := Some None\<rparr>)
        (Str ''cube.ply'') (Str ''/data/src'') (Str ''/data/nor'') (Str ''/exp/r1'')) state0
      = (Inr (Path ''/'' [''data'', ''src'', ''cube.ply''], Path ''/'' [''data'', ''nor'', ''cube.ply''],
              Path ''/'' [''exp'', ''r1'', ''bin'', ''cube.bin''],
              Path ''/'' [''exp'', ''r1'', ''dec'', ''cube.ply''],
              Path ''/'' [''exp'', ''r1'', ''evl'', ''cube.log'']),
         \<lparr>world = env0\<lparr>fs := exp_tree\<rparr>, calls = []\<rparr>)
     \<and> encode (GPCC picky_os) (gpcc_r1\<lparr>color_attr := Some 0, resolution_attr := Some None\<rparr>)
        (str_path (Path ''/'' [''data'', ''src'', ''cube.ply'']))
        (str_path (Path ''/'' [''exp'', ''r1'', ''bin'', ''cube.bin'']))
        (world \<lparr>world = env0\<lparr>fs := exp_tree\<rparr>, calls = []\<rparr>) = (None, ?w2)
     \<and> decode (GPCC picky_os) (gpcc_r1\<lparr>color_attr := Some 0, resolution_attr := Some None\<rparr>)
        (str_path (Path ''/'' [''exp'', ''r1'', ''bin'', ''cube.bin'']))
        (str_path (Path ''/'' [''exp'', ''r1'', ''dec'', ''cube.ply''])) ?w2 = (None, ?w3)"
    using a b c by (simp add: cube_paths_def sep_def)
  have args: "\<lparr>ref_pc = Path ''/'' [''data'', ''nor'', ''cube.ply''],
        target_pc = Path ''/'' [''exp'', ''r1'', ''dec'', ''cube.ply''], m_color = 0,
        m_resolution = None,
        enc_t = clock ?w2 - clock (world \<lparr>world = env0\<lparr>fs := exp_tree\<rparr>, calls = []\<rparr>),
        dec_t = clock ?w3 - clock ?w2,
        m_bin_files = glob_file (fs ?w3) (parent (Path ''/'' [''exp'', ''r1'', ''bin'', ''cube.bin'']))
                        (stem (Path ''/'' [''exp'', ''r1'', ''bin'', ''cube.bin'']) @ ''*'') True\<rparr>
      = cube_args"
    by (simp add: stem_cube glob_cube cube_args_def env0_def)
  note inst = metrics_receive_artifact_set [where self = gpcc_r1 and color = 0 and resolution = None
        and pcfile = "Str ''cube.ply''" and src_dir = "Str ''/data/src''"
        and nor_dir = "Str ''/data/nor''" and exp_dir = "Str ''/exp/r1''" and s = state0
        and in_pcfile = "Path ''/'' [''data'', ''src'', ''cube.ply'']"
        and nor_pcfile = "Path ''/'' [''data'', ''nor'', ''cube.ply'']"
        and bin_file = "Path ''/'' [''exp'', ''r1'', ''bin'', ''cube.bin'']"
        and out_pcfile = "Path ''/'' [''exp'', ''r1'', ''dec'', ''cube.ply'']"
        and evl_log = "Path ''/'' [''exp'', ''r1'', ''evl'', ''cube.log'']"
        and ?s1.0 = "\<lparr>world = env0\<lparr>fs := exp_tree\<rparr>, calls = []\<rparr>"
        and cdc = "GPCC picky_os" and ?w2.0 = ?w2 and ?w3.0 = ?w3 and evaluate = demo_report,
        THEN mp, OF hyps, unfolded Let_def args]
  have run: "Base_run (GPCC picky_os) demo_report gpcc_r1 (Str ''cube.ply'') (Str ''/data/src'')
     (Str ''/data/nor'') (Str ''/exp/r1'') 0 None state0
   = ((None, gpcc_running),
      \<lparr>world = \<lparr>fs = cube_done @ [(cube_log, File cube_report)], console = [], clock = 2\<rparr>,
       calls = cube_calls\<rparr>)"
    using inst [THEN conjunct1]
    by (simp add: report_cube write_cube_log [unfolded cube_log_def] gpcc_running_def state0_def
        cube_calls_def cube_log_def sep_def)
  have mem: "Path ''/'' [''exp'', ''r1'', ''bin'', ''cube.aux''] \<in> set (m_bin_files cube_args)"
    using inst [THEN conjunct2, rule_format,
        of "Path ''/'' [''exp'', ''r1'', ''bin'', ''cube.aux'']" "''side''"] d
    by (simp add: stem_cube)
  have rep: "cube_report = ''files: /exp/r1/bin/cube.bin /exp/r1/bin/cube.aux''"
    by (simp add: cube_report_def)
  show ?thesis using run rep d e mem by (intro conjI) simp_all
qed

subsection \<open>The dispatcher and a job that raises\<close>

lemma imap_collect_None:
  "fst (imap_collect unf func xs s) = None \<Longrightarrow>
   snd (imap_collect unf func xs s) = foldl (\<lambda>s x. snd (func x s)) s xs"
proof (induction xs arbitrary: s)
  case Nil
  show ?case by simp
next
  case (Cons x xs)
  obtain r s' where f: "func x s = (r, s')" by (cases "func x s")
  with Cons.prems have r: "r = None" by (cases r) simp_all
  from Cons.prems f r have "fst (imap_collect unf func xs s') = None" by simp
  from Cons.IH [OF this] show ?case using f r by simp
qed

lemma imap_collect_failure:
  "imap_collect unf func pre s = (None, s1) \<Longrightarrow> func y s1 = (Some ex, s2) \<Longrightarrow>
   imap_collect unf func (pre @ y # post) s = (Some ex, unf func post s2)"
proof (induction pre arbitrary: s)
  case Nil
  then show ?case by simp
next
  case (Cons x pre)
  obtain r s' where f: "func x s = (r, s')" by (cases "func x s")
  with Cons.prems(1) have r: "r = None" by (cases r) simp_all
  from Cons.prems(1) f r have "imap_collect unf func pre s' = (None, s1)" by simp
  from Cons.IH [OF this Cons.prems(2)] show ?case using f r by simp
qed

lemma demo_job_bad:
  "demo_job (Str ''bad.ply'') \<lparr>world = env0, calls = cs\<rparr>
   = (Some AssertionError,
      \<lparr>world = \<lparr>fs = exp_tree, console = failed_console bad_enc_cmd, clock = 1\<rparr>,
       calls = cs @ [EncodeCall ''/data/src/bad.ply'' ''/exp/r1/bin/bad.bin'']\<rparr>)"
  using set_filepath_bad encode_bad
  by (simp add: demo_job_def Base_run_method_def Base_run_def lift_def timer_def
      encode_step_def record_call_def GPCC_def gpcc_running_def bad_paths_def sep_def)

lemma set_filepath_cube_made:
  "set_filepath gpcc_running (Str ''cube.ply'') (Str ''/data/src'') (Str ''/data/nor'')
     (Str ''/exp/r1'') \<lparr>fs = exp_tree, console = c, clock = t\<rparr>
   = (Inr cube_paths, \<lparr>fs = exp_tree, console = c, clock = t\<rparr>)"
  by (simp add: set_filepath_def gpcc_running_def gpcc_r1_def Base_init_def gpcc_cfg_def
      cfg_scalar_def Path_of_def parse_parts_def joinpath_def splitroot_def components_def
      sep_def suffix_of_name_def rfind_dot_def os_mkdir_def mkdir_exist_ok_def is_dir_def
      cube_paths_def exp_tree_def)

lemma encode_cube_at:
  "GPCC_encode picky_os gpcc_running ''/data/src/cube.ply'' ''/exp/r1/bin/cube.bin''
     \<lparr>fs = exp_tree, console = c, clock = t\<rparr>
   = (None, \<lparr>fs = exp_tree @ cube_streams, console = c, clock = t + 1\<rparr>)"
  by (simp add: GPCC_encode_def gpcc_running_def gpcc_r1_def Base_init_def gpcc_cfg_def
      cfg_scalar_def cfg_nested_def rate_def execute_cmd_def picky_os_def demo_os_def
      demo_enc_def side_file_def write_all_def exp_tree_def cube_streams_def
      Path_of_def parse_parts_def splitroot_def components_def sep_def suffix_of_name_def
      rfind_dot_def)

lemma decode_cube_at:
  "GPCC_decode picky_os gpcc_running ''/exp/r1/bin/cube.bin'' ''/exp/r1/dec/cube.ply''
     \<lparr>fs = exp_tree @ cube_streams, console = c, clock = t\<rparr>
   = (None, \<lparr>fs = cube_done, console = c, clock = t + 1\<rparr>)"
  by (simp add: GPCC_decode_def gpcc_running_def gpcc_r1_def Base_init_def gpcc_cfg_def
      cfg_scalar_def execute_cmd_def picky_os_def demo_os_def demo_dec_def
      write_all_def exp_tree_def cube_streams_def cube_done_def
      Path_of_def parse_parts_def splitroot_def components_def sep_def)

lemma demo_job_cube_from:
  assumes "set_filepath gpcc_running (Str ''cube.ply'') (Str ''/data/src'') (Str ''/data/nor'')
     (Str ''/exp/r1'') \<lparr>fs = f0, console = c, clock = t\<rparr>
   = (Inr cube_paths, \<lparr>fs = exp_tree, console = c, clock = t\<rparr>)"
  shows "demo_job (Str ''cube.ply'') \<lparr>world = \<lparr>fs = f0, console = c, clock = t\<rparr>, calls = cs\<rparr>
   = (None,
      \<lparr>world = \<lparr>fs = cube_done @ [(cube_log, File cube_report)], console = c, clock = t + 2\<rparr>,
       calls = cs @ cube_calls\<rparr>)"
  using assms encode_cube_at [of c t] decode_cube_at [of c "t + 1"] glob_cube
    write_cube_log [of cube_report] report_cube
  by (simp add: demo_job_def Base_run_method_def Base_run_def lift_def timer_def
      encode_step_def decode_step_def record_call_def GPCC_def gpcc_running_def cube_paths_def
      sep_def stem_cube cube_calls_def cube_args_def cube_log_def)

lemma demo_job_cube:
  "demo_job (Str ''cube.ply'') \<lparr>world = env0, calls = cs\<rparr>
   = (None,
      \<lparr>world = \<lparr>fs = cube_done @ [(cube_log, File cube_report)], console = [], clock = 2\<rparr>,
       calls = cs @ cube_calls\<rparr>)"
  using demo_job_cube_from [of "[]" "[]" 0 cs] set_filepath_cube
  by (simp add: env0_def)

lemma demo_job_cube_late:
  "demo_job (Str ''cube.ply'')
     \<lparr>world = \<lparr>fs = exp_tree, console = c, clock = t\<rparr>, calls = cs\<rparr>
   = (None,
      \<lparr>world = \<lparr>fs = cube_done @ [(cube_log, File cube_report)], console = c, clock = t + 2\<rparr>,
       calls = cs @ cube_calls\<rparr>)"
  using set_filepath_cube_made by (rule demo_job_cube_from)

text \<open>
  C1, as the code has it. Once the pool exists, \<^verbatim>\<open>parallel\<close> returns normally only
  when no job raised, and then the job has been applied to every item. When a job
  raises on an item, the failure is not contained: \<^verbatim>\<open>parallel\<close> raises that exception
  to its caller when the result of the item is collected. The jobs that delivered
  their results before have been applied; the state of the others is what the
  schedule made of them before the pool was terminated, and nothing waits for them.
\<close>

theorem parallel_reraises_job_error:
  "(use_gpu \<longrightarrow> ga fixed_policy \<noteq> []) \<longrightarrow>
     (fst (parallel ga fo unf func files use_gpu s) = None \<longrightarrow>
        snd (parallel ga fo unf func files use_gpu s)
        = foldl (\<lambda>s x. snd (func x s))
            (record_call (PoolCreated (if use_gpu then Workers (length (ga fixed_policy))
                                       else CpuCount)) s)
            (fo files))
     \<and> (fo files = pre @ y # post
          \<and> imap_collect unf func pre
               (record_call (PoolCreated (if use_gpu then Workers (length (ga fixed_policy))
                                          else CpuCount)) s) = (None, s1)
          \<and> func y s1 = (Some ex, s2)
        \<longrightarrow> parallel ga fo unf func files use_gpu s = (Some ex, unf func post s2))"
proof (intro impI conjI)
  let ?pool = "record_call (PoolCreated (if use_gpu then Workers (length (ga fixed_policy))
                                         else CpuCount)) s"
  assume gpu: "use_gpu \<longrightarrow> ga fixed_policy \<noteq> []"
  then have par: "parallel ga fo unf func files use_gpu s = imap_collect unf func (fo files) ?pool"
    by (simp add: parallel_def Let_def)
  {
    assume "fst (parallel ga fo unf func files use_gpu s) = None"
    then have "fst (imap_collect unf func (fo files) ?pool) = None" by (simp only: par)
    from imap_collect_None [OF this]
    show "snd (parallel ga fo unf func files use_gpu s)
        = foldl (\<lambda>s x. snd (func x s)) ?pool (fo files)"
      by (simp only: par)
  next
    assume "fo files = pre @ y # post \<and> imap_collect unf func pre ?pool = (None, s1)
          \<and> func y s1 = (Some ex, s2)"
    then have o: "fo files = pre @ y # post" and p: "imap_collect unf func pre ?pool = (None, s1)"
      and f: "func y s1 = (Some ex, s2)" by simp_all
    from imap_collect_failure [OF p f, of post]
    show "parallel ga fo unf func files use_gpu s = (Some ex, unf func post s2)"
      by (simp only: par o)
  }
qed

lemma pool_state0:
  "record_call (PoolCreated CpuCount) state0 = \<lparr>world = env0, calls = [PoolCreated CpuCount]\<rparr>"
  by (simp add: record_call_def state0_def)

lemma finish_cube_after_bad:
  "finish_all demo_job [Str ''cube.ply'']
     \<lparr>world = \<lparr>fs = exp_tree, console = failed_console bad_enc_cmd, clock = 1\<rparr>,
      calls = [PoolCreated CpuCount, EncodeCall ''/data/src/bad.ply'' ''/exp/r1/bin/bad.bin'']\<rparr>
   = raised_state"
  by (simp add: finish_all_def demo_job_cube_late raised_state_def)

theorem parallel_reraises_job_error_witness:
  "parallel no_gpu (\<lambda>xs. xs) finish_all demo_job [Str ''cube.ply''] False state0
     = (None,
        \<lparr>world = \<lparr>fs = cube_done @ [(cube_log, File cube_report)], console = [], clock = 2\<rparr>,
         calls = PoolCreated CpuCount # cube_calls\<rparr>)
   \<and> parallel no_gpu (\<lambda>xs. xs) finish_all demo_job [Str ''bad.ply'', Str ''cube.ply''] False state0
     = (Some AssertionError, raised_state)"
proof -
  let ?bad = "\<lparr>world = \<lparr>fs = exp_tree, console = failed_console bad_enc_cmd, clock = 1\<rparr>,
      calls = [PoolCreated CpuCount, EncodeCall ''/data/src/bad.ply'' ''/exp/r1/bin/bad.bin'']\<rparr>"
  have cube: "imap_collect finish_all demo_job [Str ''cube.ply'']
        (record_call (PoolCreated CpuCount) state0)
      = (None,
        \<lparr>world = \<lparr>fs = cube_done @ [(cube_log, File cube_report)], console = [], clock = 2\<rparr>,
         calls = PoolCreated CpuCount # cube_calls\<rparr>)"
    by (simp add: pool_state0 demo_job_cube)
  have bad: "demo_job (Str ''bad.ply'') (record_call (PoolCreated CpuCount) state0)
      = (Some AssertionError, ?bad)"
    by (simp add: pool_state0 demo_job_bad)
  have one: "parallel no_gpu (\<lambda>xs. xs) finish_all demo_job [Str ''cube.ply''] False state0
      = imap_collect finish_all demo_job [Str ''cube.ply'']
          (record_call (PoolCreated CpuCount) state0)"
    by (simp add: parallel_def)
  have fin: "snd (parallel no_gpu (\<lambda>xs. xs) finish_all demo_job [Str ''cube.ply''] False state0)
      = snd (demo_job (Str ''cube.ply'') (record_call (PoolCreated CpuCount) state0))"
    using parallel_reraises_job_error [where use_gpu = False and ga = no_gpu
        and fo = "\<lambda>xs. xs" and unf = finish_all and func = demo_job
        and files = "[Str ''cube.ply'']" and s = state0
        and pre = "[]" and y = "Str ''cube.ply''" and post = "[]"]
      one cube
    by simp
  have two: "parallel no_gpu (\<lambda>xs. xs) finish_all demo_job [Str ''bad.ply'', Str ''cube.ply'']
        False state0
      = (Some AssertionError, finish_all demo_job [Str ''cube.ply''] ?bad)"
    using parallel_reraises_job_error [where use_gpu = False and ga = no_gpu
        and fo = "\<lambda>xs. xs" and unf = finish_all and func = demo_job
        and files = "[Str ''bad.ply'', Str ''cube.ply'']"
        and s = state0 and pre = "[]" and y = "Str ''bad.ply''" and post = "[Str ''cube.ply'']"
        and ?s1.0 = "record_call (PoolCreated CpuCount) state0" and ex = AssertionError
        and ?s2.0 = ?bad]
      bad
    by simp
  show ?thesis using fin one cube two finish_cube_after_bad by simp
qed

text \<open>
  C1 as stated fails. The encoder rejects \<^verbatim>\<open>bad.ply\<close>, its job raises, and \<^verbatim>\<open>parallel\<close>
  raises with it to its caller: the failure is not contained and the dispatch does
  not run to completion, even in this schedule, where the worker of \<^verbatim>\<open>cube.ply\<close> had
  finished its job and written its log before the pool was terminated.
\<close>

theorem parallel_counterexample:
  "parallel no_gpu (\<lambda>xs. xs) finish_all demo_job [Str ''bad.ply'', Str ''cube.ply''] False state0
     = (Some AssertionError, raised_state)
   \<and> fst (demo_job (Str ''bad.ply'') (record_call (PoolCreated CpuCount) state0))
       = Some AssertionError
   \<and> fst (demo_job (Str ''cube.ply'') state0) = None"
proof -
  have a: "parallel no_gpu (\<lambda>xs. xs) finish_all demo_job [Str ''bad.ply'', Str ''cube.ply'']
        False state0 = (Some AssertionError, raised_state)"
    by (simp add: parallel_def pool_state0 demo_job_bad finish_cube_after_bad)
  have b: "fst (demo_job (Str ''bad.ply'') (record_call (PoolCreated CpuCount) state0))
       = Some AssertionError"
    by (simp add: pool_state0 demo_job_bad)
  have c: "fst (demo_job (Str ''cube.ply'') state0) = None"
    unfolding state0_def by (simp add: demo_job_cube)
  show ?thesis using a b c by (intro conjI)
qed

lemmas eval_defs =
  run_dataset_def demo_ext_def start_msg_def parallel_def
  Base_run_method_def Base_run_def lift_def set_filepath_def state0_def env0_def gpcc_r1_def
  Base_init_def gpcc_cfg_def cfg_scalar_def cfg_nested_def Path_of_def parse_parts_def
  joinpath_def splitroot_def components_def sep_def suffix_of_name_def stem_of_name_def
  stem_def rfind_dot_def os_mkdir_def mkdir_exist_ok_def is_dir_def timer_def encode_step_def
  decode_step_def record_call_def GPCC_def GPCC_encode_def GPCC_decode_def rate_def
  execute_cmd_def demo_os_def emit_def bytes_decode_def cmd_line_def cont_def demo_report_def
  glob_file_def write_file_def picky_os_def demo_enc_def demo_dec_def write_all_def
  data_tree_def cube_done_def exp_tree_def cube_streams_def cube_log_def cube_calls_def
  cube_args_def cube_report_def no_gpu_def side_file_def finish_all_def

subsection \<open>Path resolution: the scenario of \<^verbatim>\<open>cube.ply\<close>\<close>

lemma nofile_take3:
  assumes "\<And>c. lookup_node f (Path r [a]) \<noteq> Some (File c)"
    and "\<And>c. lookup_node f (Path r [a, b]) \<noteq> Some (File c)"
    and "\<And>c. lookup_node f (Path r [a, b, d]) \<noteq> Some (File c)"
  shows "\<forall>k c. lookup_node f (Path r (take k [a, b, d])) \<noteq> Some (File c)"
proof (intro allI)
  fix k :: nat and c
  consider "k = 0" | "k = 1" | "k = 2" | "3 \<le> k" by arith
  then show "lookup_node f (Path r (take k [a, b, d])) \<noteq> Some (File c)"
  proof cases
    case 1
    then show ?thesis by simp
  next
    case 2
    then show ?thesis using assms(1) [of c] by simp
  next
    case 3
    then have "take k [a, b, d] = [a, b]" by (simp add: numeral_2_eq_2)
    then show ?thesis using assms(2) [of c] by (simp del: lookup_node.simps)
  next
    case 4
    then have "take k [a, b, d] = [a, b, d]" by simp
    then show ?thesis using assms(3) [of c] by (simp del: lookup_node.simps)
  qed
qed

lemma is_dir_append: "is_dir f p \<Longrightarrow> is_dir (f @ new) p"
  unfolding is_dir_def by (rule lookup_append_old)

lemma cube_dirs_made:
  assumes nf: "\<forall>p\<in>set (map fst exp_tree). \<forall>c. lookup_node f p \<noteq> Some (File c)"
  shows "\<exists>new1 new2 new3.
           mkdir_parents (Path ''/'' [''exp'', ''r1'', ''bin'']) f = (None, f @ new1)
         \<and> mkdir_parents (Path ''/'' [''exp'', ''r1'', ''dec'']) (f @ new1) = (None, (f @ new1) @ new2)
         \<and> mkdir_parents (Path ''/'' [''exp'', ''r1'', ''evl'']) ((f @ new1) @ new2)
             = (None, ((f @ new1) @ new2) @ new3)
         \<and> (\<forall>x\<in>set (new1 @ new2 @ new3). snd x = Dir)
         \<and> is_dir (f @ new1 @ new2 @ new3) (Path ''/'' [''exp'', ''r1'', ''bin''])
         \<and> is_dir (f @ new1 @ new2 @ new3) (Path ''/'' [''exp'', ''r1'', ''dec''])
         \<and> is_dir (f @ new1 @ new2 @ new3) (Path ''/'' [''exp'', ''r1'', ''evl''])"
proof -
  have e1: "\<And>c. lookup_node f (Path ''/'' [''exp'']) \<noteq> Some (File c)"
    and e2: "\<And>c. lookup_node f (Path ''/'' [''exp'', ''r1'']) \<noteq> Some (File c)"
    and e3: "\<And>c. lookup_node f (Path ''/'' [''exp'', ''r1'', ''bin'']) \<noteq> Some (File c)"
    and e4: "\<And>c. lookup_node f (Path ''/'' [''exp'', ''r1'', ''dec'']) \<noteq> Some (File c)"
    and e5: "\<And>c. lookup_node f (Path ''/'' [''exp'', ''r1'', ''evl'']) \<noteq> Some (File c)"
    using nf by (simp_all add: exp_tree_def del: lookup_node.simps)
  from mkdir_parents_ok [OF nofile_take3 [OF e1 e2 e3]] obtain new1 where
    m1: "mkdir_parents (Path ''/'' [''exp'', ''r1'', ''bin'']) f = (None, f @ new1)"
    and d1: "\<forall>x\<in>set new1. snd x = Dir"
    and i1: "is_dir (f @ new1) (Path ''/'' [''exp'', ''r1'', ''bin''])" by blast
  have f1: "\<And>p c. lookup_node f p \<noteq> Some (File c) \<Longrightarrow> lookup_node (f @ new1) p \<noteq> Some (File c)"
    using lookup_append_file [OF d1] by blast
  from mkdir_parents_ok [OF nofile_take3 [OF f1 [OF e1] f1 [OF e2] f1 [OF e4]]] obtain new2 where
    m2: "mkdir_parents (Path ''/'' [''exp'', ''r1'', ''dec'']) (f @ new1) = (None, (f @ new1) @ new2)"
    and d2: "\<forall>x\<in>set new2. snd x = Dir"
    and i2: "is_dir ((f @ new1) @ new2) (Path ''/'' [''exp'', ''r1'', ''dec''])" by blast
  have f2: "\<And>p c. lookup_node (f @ new1) p \<noteq> Some (File c)
      \<Longrightarrow> lookup_node ((f @ new1) @ new2) p \<noteq> Some (File c)"
    using lookup_append_file [OF d2] by blast
  from mkdir_parents_ok [OF nofile_take3 [OF f2 [OF f1 [OF e1]] f2 [OF f1 [OF e2]] f2 [OF f1 [OF e5]]]]
  obtain new3 where
    m3: "mkdir_parents (Path ''/'' [''exp'', ''r1'', ''evl'']) ((f @ new1) @ new2)
          = (None, ((f @ new1) @ new2) @ new3)"
    and d3: "\<forall>x\<in>set new3. snd x = Dir"
    and i3: "is_dir (((f @ new1) @ new2) @ new3) (Path ''/'' [''exp'', ''r1'', ''evl''])" by blast
  have j1: "is_dir (f @ new1 @ new2 @ new3) (Path ''/'' [''exp'', ''r1'', ''bin''])"
    using is_dir_append [OF i1, of "new2 @ new3"] by simp
  have j2: "is_dir (f @ new1 @ new2 @ new3) (Path ''/'' [''exp'', ''r1'', ''dec''])"
    using is_dir_append [OF i2, of new3] by simp
  have j3: "is_dir (f @ new1 @ new2 @ new3) (Path ''/'' [''exp'', ''r1'', ''evl''])"
    using i3 by simp
  have d: "\<forall>x\<in>set (new1 @ new2 @ new3). snd x = Dir"
    using d1 d2 d3 by auto
  show ?thesis using m1 m2 m3 d j1 j2 j3 by blast
qed

lemma cube_pure_paths:
  "joinpath (Path_of (Str ''/data/src'')) [Str ''cube.ply''] = Path ''/'' [''data'', ''src'', ''cube.ply'']"
  "with_suffix (joinpath (Path_of (Pth (Path ''/'' [''exp'', ''r1'']))) [Str ''bin'', Str ''cube.ply'']) ''.bin''
     = Inr (Path ''/'' [''exp'', ''r1'', ''bin'', ''cube.bin''])"
  "joinpath (Path_of (Pth (Path ''/'' [''exp'', ''r1'']))) [Str ''dec'', Str ''cube.ply'']
     = Path ''/'' [''exp'', ''r1'', ''dec'', ''cube.ply'']"
  "with_suffix (joinpath (Path_of (Pth (Path ''/'' [''exp'', ''r1'']))) [Str ''evl'', Str ''cube.ply'']) ''.log''
     = Inr (Path ''/'' [''exp'', ''r1'', ''evl'', ''cube.log''])"
  by (simp_all add: Path_of_def parse_parts_def joinpath_def splitroot_def components_def sep_def
      suffix_of_name_def rfind_dot_def)

lemma set_filepath_cube_general:
  assumes suf: "cfg_scalar (algs_cfg self) ''bin_suffix'' = Inr ''.bin''"
    and nf: "\<forall>p\<in>set (map fst exp_tree). \<forall>c. lookup_node (fs e) p \<noteq> Some (File c)"
  shows "\<exists>new. set_filepath self (Str ''cube.ply'') (Str ''/data/src'') nor_dir
                  (Pth (Path ''/'' [''exp'', ''r1''])) e
               = (Inr (Path ''/'' [''data'', ''src'', ''cube.ply''],
                       joinpath (Path_of nor_dir) [Str ''cube.ply''],
                       Path ''/'' [''exp'', ''r1'', ''bin'', ''cube.bin''],
                       Path ''/'' [''exp'', ''r1'', ''dec'', ''cube.ply''],
                       Path ''/'' [''exp'', ''r1'', ''evl'', ''cube.log'']),
                  e\<lparr>fs := fs e @ new\<rparr>)
             \<and> (\<forall>x\<in>set new. snd x = Dir)
             \<and> is_dir (fs e @ new) (Path ''/'' [''exp'', ''r1'', ''bin''])
             \<and> is_dir (fs e @ new) (Path ''/'' [''exp'', ''r1'', ''dec''])
             \<and> is_dir (fs e @ new) (Path ''/'' [''exp'', ''r1'', ''evl''])"
proof -
  from cube_dirs_made [OF nf] obtain new1 new2 new3 where
    m1: "mkdir_parents (Path ''/'' [''exp'', ''r1'', ''bin'']) (fs e) = (None, fs e @ new1)"
    and m2: "mkdir_parents (Path ''/'' [''exp'', ''r1'', ''dec'']) (fs e @ new1)
              = (None, (fs e @ new1) @ new2)"
    and m3: "mkdir_parents (Path ''/'' [''exp'', ''r1'', ''evl'']) ((fs e @ new1) @ new2)
              = (None, ((fs e @ new1) @ new2) @ new3)"
    and d: "\<forall>x\<in>set (new1 @ new2 @ new3). snd x = Dir"
    and j: "is_dir (fs e @ new1 @ new2 @ new3) (Path ''/'' [''exp'', ''r1'', ''bin''])"
           "is_dir (fs e @ new1 @ new2 @ new3) (Path ''/'' [''exp'', ''r1'', ''dec''])"
           "is_dir (fs e @ new1 @ new2 @ new3) (Path ''/'' [''exp'', ''r1'', ''evl''])"
    by blast
  have par: "parent (Path ''/'' [''exp'', ''r1'', ''bin'', ''cube.bin'']) = Path ''/'' [''exp'', ''r1'', ''bin'']"
      "parent (Path ''/'' [''exp'', ''r1'', ''dec'', ''cube.ply'']) = Path ''/'' [''exp'', ''r1'', ''dec'']"
      "parent (Path ''/'' [''exp'', ''r1'', ''evl'', ''cube.log'']) = Path ''/'' [''exp'', ''r1'', ''evl'']"
    by simp_all
  have "set_filepath self (Str ''cube.ply'') (Str ''/data/src'') nor_dir
                  (Pth (Path ''/'' [''exp'', ''r1''])) e
               = (Inr (Path ''/'' [''data'', ''src'', ''cube.ply''],
                       joinpath (Path_of nor_dir) [Str ''cube.ply''],
                       Path ''/'' [''exp'', ''r1'', ''bin'', ''cube.bin''],
                       Path ''/'' [''exp'', ''r1'', ''dec'', ''cube.ply''],
                       Path ''/'' [''exp'', ''r1'', ''evl'', ''cube.log'']),
                  e\<lparr>fs := fs e @ (new1 @ new2 @ new3)\<rparr>)"
    by (simp only: set_filepath_def Let_def suf cube_pure_paths par sum.case m1
        m2 [unfolded append_assoc] m3 [unfolded append_assoc] prod.case option.case append_assoc)
  then show ?thesis using d j by blast
qed

text \<open>
  C8. \<^verbatim>\<open>run_dataset\<close> joins the experiment root \<^verbatim>\<open>/exp\<close> with the rate tag \<^verbatim>\<open>r1\<close> and
  hands \<^verbatim>\<open>/exp/r1\<close> to every job. For the item \<^verbatim>\<open>cube.ply\<close>, the source directory
  \<^verbatim>\<open>/data/src\<close> and the suffix \<^verbatim>\<open>.bin\<close>, path resolution under \<^verbatim>\<open>/exp/r1\<close> returns the
  four paths of the scenario, and, whenever none of the directories on the way is a
  regular file, it only adds directories to the file system and leaves the three
  destination directories in place, whether they existed or not.
\<close>

theorem cube_scenario:
  "joinpath (Path_of (Str ''/exp'')) [Str ''r1''] = Path ''/'' [''exp'', ''r1'']
   \<and> (rate_attr self = Some ''r1''
        \<and> load_cfg ext (if ds_cfg_file = Str ''cfgs/datasets.yml''
                          then Pth (default_ds_cfg ext) else ds_cfg_file) = Inr ds_cfg
        \<and> map_of ds_cfg ds_name = Some ds
      \<longrightarrow> run_dataset ext self ds_name (Str ''/exp'') ds_cfg_file s
          = parallel (getAvailable ext) (finish_order ext) (unfinished ext)
              (\<lambda>pcfile. run_method ext self pcfile (Str (dataset_dir ds))
                           (Str (dataset_w_normal_dir ds)) (Pth (Path ''/'' [''exp'', ''r1'']))
                           (ds_color ds) (ds_resolution ds))
              (map Pth (glob_file (fs (world s)) (Path_of (Str (dataset_dir ds)))
                          (test_pattern ds) False))
              (use_gpu_attr self)
              (s\<lparr>world := emit (LogInfo (start_msg ds_name (cls_name self)
                                           (Path ''/'' [''exp'', ''r1'']))) (world s)\<rparr>))
   \<and> (cfg_scalar (algs_cfg self) ''bin_suffix'' = Inr ''.bin''
        \<and> (\<forall>p\<in>set (map fst exp_tree). \<forall>c. lookup_node (fs e) p \<noteq> Some (File c))
      \<longrightarrow> (\<exists>new. set_filepath self (Str ''cube.ply'') (Str ''/data/src'') nor_dir
                     (Pth (Path ''/'' [''exp'', ''r1''])) e
                  = (Inr (Path ''/'' [''data'', ''src'', ''cube.ply''],
                          joinpath (Path_of nor_dir) [Str ''cube.ply''],
                          Path ''/'' [''exp'', ''r1'', ''bin'', ''cube.bin''],
                          Path ''/'' [''exp'', ''r1'', ''dec'', ''cube.ply''],
                          Path ''/'' [''exp'', ''r1'', ''evl'', ''cube.log'']),
                     e\<lparr>fs := fs e @ new\<rparr>)
                \<and> (\<forall>x\<in>set new. snd x = Dir)
                \<and> is_dir (fs e @ new) (Path ''/'' [''exp'', ''r1'', ''bin''])
                \<and> is_dir (fs e @ new) (Path ''/'' [''exp'', ''r1'', ''dec''])
                \<and> is_dir (fs e @ new) (Path ''/'' [''exp'', ''r1'', ''evl''])))
   \<and> str_path (Path ''/'' [''data'', ''src'', ''cube.ply'']) = ''/data/src/cube.ply''
   \<and> str_path (Path ''/'' [''exp'', ''r1'', ''bin'', ''cube.bin'']) = ''/exp/r1/bin/cube.bin''
   \<and> str_path (Path ''/'' [''exp'', ''r1'', ''dec'', ''cube.ply'']) = ''/exp/r1/dec/cube.ply''
   \<and> str_path (Path ''/'' [''exp'', ''r1'', ''evl'', ''cube.log'']) = ''/exp/r1/evl/cube.log''"
proof (intro conjI impI)
  show j: "joinpath (Path_of (Str ''/exp'')) [Str ''r1''] = Path ''/'' [''exp'', ''r1'']"
    by (simp add: Path_of_def parse_parts_def joinpath_def splitroot_def components_def sep_def)
  {
    assume h: "rate_attr self = Some ''r1''
        \<and> load_cfg ext (if ds_cfg_file = Str ''cfgs/datasets.yml''
                          then Pth (default_ds_cfg ext) else ds_cfg_file) = Inr ds_cfg
        \<and> map_of ds_cfg ds_name = Some ds"
    have w: "fs (emit (LogInfo (start_msg ds_name (cls_name self) (Path ''/'' [''exp'', ''r1''])))
                  (world s)) = fs (world s)"
      by (simp add: emit_def)
    show "run_dataset ext self ds_name (Str ''/exp'') ds_cfg_file s
          = parallel (getAvailable ext) (finish_order ext) (unfinished ext)
              (\<lambda>pcfile. run_method ext self pcfile (Str (dataset_dir ds))
                           (Str (dataset_w_normal_dir ds)) (Pth (Path ''/'' [''exp'', ''r1'']))
                           (ds_color ds) (ds_resolution ds))
              (map Pth (glob_file (fs (world s)) (Path_of (Str (dataset_dir ds)))
                          (test_pattern ds) False))
              (use_gpu_attr self)
              (s\<lparr>world := emit (LogInfo (start_msg ds_name (cls_name self)
                                           (Path ''/'' [''exp'', ''r1'']))) (world s)\<rparr>)"
      using h by (simp add: run_dataset_def Let_def j w)
  next
    assume "cfg_scalar (algs_cfg self) ''bin_suffix'' = Inr ''.bin''
        \<and> (\<forall>p\<in>set (map fst exp_tree). \<forall>c. lookup_node (fs e) p \<noteq> Some (File c))"
    then have suf: "cfg_scalar (algs_cfg self) ''bin_suffix'' = Inr ''.bin''"
      and nf: "\<forall>p\<in>set (map fst exp_tree). \<forall>c. lookup_node (fs e) p \<noteq> Some (File c)"
      by blast+
    show "\<exists>new. set_filepath self (Str ''cube.ply'') (Str ''/data/src'') nor_dir
                     (Pth (Path ''/'' [''exp'', ''r1''])) e
                  = (Inr (Path ''/'' [''data'', ''src'', ''cube.ply''],
                          joinpath (Path_of nor_dir) [Str ''cube.ply''],
                          Path ''/'' [''exp'', ''r1'', ''bin'', ''cube.bin''],
                          Path ''/'' [''exp'', ''r1'', ''dec'', ''cube.ply''],
                          Path ''/'' [''exp'', ''r1'', ''evl'', ''cube.log'']),
                     e\<lparr>fs := fs e @ new\<rparr>)
                \<and> (\<forall>x\<in>set new. snd x = Dir)
                \<and> is_dir (fs e @ new) (Path ''/'' [''exp'', ''r1'', ''bin''])
                \<and> is_dir (fs e @ new) (Path ''/'' [''exp'', ''r1'', ''dec''])
                \<and> is_dir (fs e @ new) (Path ''/'' [''exp'', ''r1'', ''evl''])"
      using suf nf by (rule set_filepath_cube_general)
  }
qed (simp_all add: sep_def)

theorem cube_scenario_witness:
  "run_dataset (demo_ext picky_os) gpcc_r1 ''demo'' (Str ''/exp'') (Str ''cfgs/datasets.yml'')
     \<lparr>world = \<lparr>fs = data_tree, console = [], clock = 0\<rparr>, calls = []\<rparr>
   = (None,
      \<lparr>world = \<lparr>fs = data_tree @ cube_done @ [(cube_log, File cube_report)],
                 console = [LogInfo ''Start to run experiments on demo dataset with GPCC in /exp/r1''],
                 clock = 2\<rparr>,
       calls = PoolCreated CpuCount # cube_calls\<rparr>)
   \<and> (\<exists>new. set_filepath gpcc_r1 (Str ''cube.ply'') (Str ''/data/src'') (Str ''/data/nor'')
               (Pth (Path ''/'' [''exp'', ''r1''])) env0
             = (Inr cube_paths, env0\<lparr>fs := [] @ new\<rparr>)
           \<and> is_dir ([] @ new) (Path ''/'' [''exp'', ''r1'', ''bin''])
           \<and> is_dir ([] @ new) (Path ''/'' [''exp'', ''r1'', ''dec''])
           \<and> is_dir ([] @ new) (Path ''/'' [''exp'', ''r1'', ''evl'']))
   \<and> (\<exists>new. set_filepath gpcc_r1 (Str ''cube.ply'') (Str ''/data/src'') (Str ''/data/nor'')
               (Pth (Path ''/'' [''exp'', ''r1''])) (env0\<lparr>fs := exp_tree\<rparr>)
             = (Inr cube_paths, env0\<lparr>fs := exp_tree @ new\<rparr>)
           \<and> is_dir (exp_tree @ new) (Path ''/'' [''exp'', ''r1'', ''bin''])
           \<and> is_dir (exp_tree @ new) (Path ''/'' [''exp'', ''r1'', ''dec''])
           \<and> is_dir (exp_tree @ new) (Path ''/'' [''exp'', ''r1'', ''evl'']))"
proof -
  let ?s = "\<lparr>world = \<lparr>fs = data_tree, console = [], clock = 0\<rparr>, calls = []\<rparr>"
  let ?ds = "\<lparr>dataset_dir = ''/data/src'', test_pattern = ''*.ply'',
          dataset_w_normal_dir = ''/data/nor'', ds_color = 0, ds_resolution = None\<rparr>"
  have suf: "cfg_scalar (algs_cfg gpcc_r1) ''bin_suffix'' = Inr ''.bin''"
    by (simp add: gpcc_r1_def Base_init_def gpcc_cfg_def cfg_scalar_def)
  have nor: "joinpath (Path_of (Str ''/data/nor'')) [Str ''cube.ply'']
      = Path ''/'' [''data'', ''nor'', ''cube.ply'']"
    by (simp add: Path_of_def parse_parts_def joinpath_def splitroot_def components_def sep_def)
  have nf0: "\<forall>p\<in>set (map fst exp_tree). \<forall>c. lookup_node (fs env0) p \<noteq> Some (File c)"
    by (simp add: env0_def exp_tree_def)
  have nf1: "\<forall>p\<in>set (map fst exp_tree). \<forall>c. lookup_node (fs (env0\<lparr>fs := exp_tree\<rparr>)) p \<noteq> Some (File c)"
    by (simp add: exp_tree_def)
  have hyp: "rate_attr gpcc_r1 = Some ''r1''
      \<and> load_cfg (demo_ext picky_os)
           (if Str ''cfgs/datasets.yml'' = Str ''cfgs/datasets.yml''
            then Pth (default_ds_cfg (demo_ext picky_os)) else Str ''cfgs/datasets.yml'')
         = Inr [(''demo'', ?ds)]
      \<and> map_of [(''demo'', ?ds)] ''demo'' = Some ?ds"
    by (simp add: gpcc_r1_def demo_ext_def)
  note inst0 = cube_scenario [where self = gpcc_r1 and ext = "demo_ext picky_os"
      and ds_cfg_file = "Str ''cfgs/datasets.yml''" and ds_cfg = "[(''demo'', ?ds)]"
      and ds_name = "''demo''" and ds = ?ds and s = ?s and e = env0 and nor_dir = "Str ''/data/nor''"]
  note inst1 = cube_scenario [where self = gpcc_r1 and ext = "demo_ext picky_os"
      and ds_cfg_file = "Str ''cfgs/datasets.yml''" and ds_cfg = "[(''demo'', ?ds)]"
      and ds_name = "''demo''" and ds = ?ds and s = ?s and e = "env0\<lparr>fs := exp_tree\<rparr>"
      and nor_dir = "Str ''/data/nor''"]
  note rd = inst0 [THEN conjunct2, THEN conjunct1, THEN mp, OF hyp]
  have a: "run_dataset (demo_ext picky_os) gpcc_r1 ''demo'' (Str ''/exp'')
        (Str ''cfgs/datasets.yml'') ?s
      = (None,
      \<lparr>world = \<lparr>fs = data_tree @ cube_done @ [(cube_log, File cube_report)],
                 console = [LogInfo ''Start to run experiments on demo dataset with GPCC in /exp/r1''],
                 clock = 2\<rparr>,
       calls = PoolCreated CpuCount # cube_calls\<rparr>)"
    by (simp add: eval_defs)
  note a' = a [unfolded rd]
  from inst0 [THEN conjunct2, THEN conjunct2, THEN conjunct1, THEN mp, OF conjI [OF suf nf0]]
  obtain new0 where
    b1: "set_filepath gpcc_r1 (Str ''cube.ply'') (Str ''/data/src'') (Str ''/data/nor'')
           (Pth (Path ''/'' [''exp'', ''r1''])) env0
         = (Inr (Path ''/'' [''data'', ''src'', ''cube.ply''],
                 joinpath (Path_of (Str ''/data/nor'')) [Str ''cube.ply''],
                 Path ''/'' [''exp'', ''r1'', ''bin'', ''cube.bin''],
                 Path ''/'' [''exp'', ''r1'', ''dec'', ''cube.ply''],
                 Path ''/'' [''exp'', ''r1'', ''evl'', ''cube.log'']),
            env0\<lparr>fs := fs env0 @ new0\<rparr>)"
    and b2: "is_dir (fs env0 @ new0) (Path ''/'' [''exp'', ''r1'', ''bin''])"
      "is_dir (fs env0 @ new0) (Path ''/'' [''exp'', ''r1'', ''dec''])"
      "is_dir (fs env0 @ new0) (Path ''/'' [''exp'', ''r1'', ''evl''])"
    by (elim exE conjE)
  have fs0: "fs env0 = []" by (simp add: env0_def)
  have b: "\<exists>new. set_filepath gpcc_r1 (Str ''cube.ply'') (Str ''/data/src'')
               (Str ''/data/nor'') (Pth (Path ''/'' [''exp'', ''r1''])) env0
             = (Inr cube_paths, env0\<lparr>fs := [] @ new\<rparr>)
           \<and> is_dir ([] @ new) (Path ''/'' [''exp'', ''r1'', ''bin''])
           \<and> is_dir ([] @ new) (Path ''/'' [''exp'', ''r1'', ''dec''])
           \<and> is_dir ([] @ new) (Path ''/'' [''exp'', ''r1'', ''evl''])"
    using b1 b2 unfolding cube_paths_def nor fs0 by (intro exI [of _ new0] conjI)
  from inst1 [THEN conjunct2, THEN conjunct2, THEN conjunct1, THEN mp, OF conjI [OF suf nf1]]
  obtain new1 where
    c1: "set_filepath gpcc_r1 (Str ''cube.ply'') (Str ''/data/src'') (Str ''/data/nor'')
           (Pth (Path ''/'' [''exp'', ''r1''])) (env0\<lparr>fs := exp_tree\<rparr>)
         = (Inr (Path ''/'' [''data'', ''src'', ''cube.ply''],
                 joinpath (Path_of (Str ''/data/nor'')) [Str ''cube.ply''],
                 Path ''/'' [''exp'', ''r1'', ''bin'', ''cube.bin''],
                 Path ''/'' [''exp'', ''r1'', ''dec'', ''cube.ply''],
                 Path ''/'' [''exp'', ''r1'', ''evl'', ''cube.log'']),
            env0\<lparr>fs := exp_tree\<rparr>\<lparr>fs := fs (env0\<lparr>fs := exp_tree\<rparr>) @ new1\<rparr>)"
    and c2: "is_dir (fs (env0\<lparr>fs := exp_tree\<rparr>) @ new1) (Path ''/'' [''exp'', ''r1'', ''bin''])"
      "is_dir (fs (env0\<lparr>fs := exp_tree\<rparr>) @ new1) (Path ''/'' [''exp'', ''r1'', ''dec''])"
      "is_dir (fs (env0\<lparr>fs := exp_tree\<rparr>) @ new1) (Path ''/'' [''exp'', ''r1'', ''evl''])"
    by (elim exE conjE)
  have fs1: "fs (env0\<lparr>fs := exp_tree\<rparr>) = exp_tree"
    "env0\<lparr>fs := exp_tree\<rparr>\<lparr>fs := exp_tree @ new1\<rparr> = env0\<lparr>fs := exp_tree @ new1\<rparr>"
    by simp_all
  have c: "\<exists>new. set_filepath gpcc_r1 (Str ''cube.ply'') (Str ''/data/src'')
               (Str ''/data/nor'') (Pth (Path ''/'' [''exp'', ''r1''])) (env0\<lparr>fs := exp_tree\<rparr>)
             = (Inr cube_paths, env0\<lparr>fs := exp_tree @ new\<rparr>)
           \<and> is_dir (exp_tree @ new) (Path ''/'' [''exp'', ''r1'', ''bin''])
           \<and> is_dir (exp_tree @ new) (Path ''/'' [''exp'', ''r1'', ''dec''])
           \<and> is_dir (exp_tree @ new) (Path ''/'' [''exp'', ''r1'', ''evl''])"
    using c1 c2 unfolding cube_paths_def nor fs1 by (intro exI [of _ new1] conjI)
  show ?thesis using a a' b c by (intro conjI)
qed

end
